theory Spec2Isabelle
  imports Complex_Main "HOL-Library.Sublist"
begin

section \<open>Text\<close>

text \<open>
  A Python \<open>str\<close> is a sequence of Unicode code points; \<open>len\<close>, slicing and the
  substring test \<open>in\<close> all count code points. The model keeps that: a text is a list of
  code points.
\<close>

type_synonym ustr = "nat list"

definition asc :: "string \<Rightarrow> ustr" where
  \<comment> \<open>an ASCII literal of the source as code points\<close>
  "asc s = map of_char s"

text \<open>The Russian letters of the source's literals, by their Unicode names.\<close>

abbreviation (input) ru_a :: nat where "ru_a \<equiv> 1072"
abbreviation (input) ru_be :: nat where "ru_be \<equiv> 1073"
abbreviation (input) ru_ve :: nat where "ru_ve \<equiv> 1074"
abbreviation (input) ru_ghe :: nat where "ru_ghe \<equiv> 1075"
abbreviation (input) ru_de :: nat where "ru_de \<equiv> 1076"
abbreviation (input) ru_ie :: nat where "ru_ie \<equiv> 1077"
abbreviation (input) ru_zhe :: nat where "ru_zhe \<equiv> 1078"
abbreviation (input) ru_ze :: nat where "ru_ze \<equiv> 1079"
abbreviation (input) ru_i :: nat where "ru_i \<equiv> 1080"
abbreviation (input) ru_short_i :: nat where "ru_short_i \<equiv> 1081"
abbreviation (input) ru_ka :: nat where "ru_ka \<equiv> 1082"
abbreviation (input) ru_el :: nat where "ru_el \<equiv> 1083"
abbreviation (input) ru_em :: nat where "ru_em \<equiv> 1084"
abbreviation (input) ru_en :: nat where "ru_en \<equiv> 1085"
abbreviation (input) ru_o :: nat where "ru_o \<equiv> 1086"
abbreviation (input) ru_pe :: nat where "ru_pe \<equiv> 1087"
abbreviation (input) ru_er :: nat where "ru_er \<equiv> 1088"
abbreviation (input) ru_es :: nat where "ru_es \<equiv> 1089"
abbreviation (input) ru_te :: nat where "ru_te \<equiv> 1090"
abbreviation (input) ru_u :: nat where "ru_u \<equiv> 1091"
abbreviation (input) ru_ef :: nat where "ru_ef \<equiv> 1092"
abbreviation (input) ru_ha :: nat where "ru_ha \<equiv> 1093"
abbreviation (input) ru_tse :: nat where "ru_tse \<equiv> 1094"
abbreviation (input) ru_che :: nat where "ru_che \<equiv> 1095"
abbreviation (input) ru_sha :: nat where "ru_sha \<equiv> 1096"
abbreviation (input) ru_shcha :: nat where "ru_shcha \<equiv> 1097"
abbreviation (input) ru_hard :: nat where "ru_hard \<equiv> 1098"
abbreviation (input) ru_yeru :: nat where "ru_yeru \<equiv> 1099"
abbreviation (input) ru_soft :: nat where "ru_soft \<equiv> 1100"
abbreviation (input) ru_e :: nat where "ru_e \<equiv> 1101"
abbreviation (input) ru_yu :: nat where "ru_yu \<equiv> 1102"
abbreviation (input) ru_ya :: nat where "ru_ya \<equiv> 1103"
abbreviation (input) ru_io :: nat where "ru_io \<equiv> 1105"
abbreviation (input) ru_cap_a :: nat where "ru_cap_a \<equiv> 1040"
abbreviation (input) ru_cap_ka :: nat where "ru_cap_ka \<equiv> 1050"
abbreviation (input) ru_cap_em :: nat where "ru_cap_em \<equiv> 1052"
abbreviation (input) ru_cap_en :: nat where "ru_cap_en \<equiv> 1053"
abbreviation (input) ru_cap_o :: nat where "ru_cap_o \<equiv> 1054"
abbreviation (input) ru_cap_pe :: nat where "ru_cap_pe \<equiv> 1055"
abbreviation (input) ru_cap_es :: nat where "ru_cap_es \<equiv> 1057"
abbreviation (input) ru_cap_te :: nat where "ru_cap_te \<equiv> 1058"

subsection \<open>The string operations the source uses\<close>

fun starts_with :: "'a list \<Rightarrow> 'a list \<Rightarrow> bool" where
  "starts_with s [] = True"
| "starts_with [] (p # ps) = False"
| "starts_with (c # s) (p # ps) = (c = p \<and> starts_with s ps)"

fun contains :: "'a list \<Rightarrow> 'a list \<Rightarrow> bool" where
  \<comment> \<open>\<open>needle in hay\<close>\<close>
  "contains [] needle = (needle = [])"
| "contains (c # s) needle = (starts_with (c # s) needle \<or> contains s needle)"

definition is_space :: "nat \<Rightarrow> bool" where
  \<comment> \<open>the code points for which \<open>str.isspace\<close> holds: what \<open>strip\<close>, \<open>split\<close> and \<open>\s\<close> take
     for whitespace\<close>
  "is_space c \<longleftrightarrow>
     (9 \<le> c \<and> c \<le> 13) \<or> (28 \<le> c \<and> c \<le> 32) \<or> c = 133 \<or> c = 160 \<or> c = 5760 \<or>
     (8192 \<le> c \<and> c \<le> 8202) \<or> c = 8232 \<or> c = 8233 \<or> c = 8239 \<or> c = 8287 \<or> c = 12288"

definition strip :: "ustr \<Rightarrow> ustr" where
  "strip s = rev (dropWhile is_space (rev (dropWhile is_space s)))"

fun split_on :: "nat \<Rightarrow> ustr \<Rightarrow> ustr list" where
  \<comment> \<open>\<open>s.split(sep)\<close> for a one-character separator\<close>
  "split_on sep [] = [[]]"
| "split_on sep (c # s) =
     (if c = sep then [] # split_on sep s
      else (case split_on sep s of
              [] \<Rightarrow> [[c]]
            | l # ls \<Rightarrow> (c # l) # ls))"

fun words_from :: "ustr \<Rightarrow> ustr \<Rightarrow> ustr list" where
  \<comment> \<open>the word being read, then the rest of the text\<close>
  "words_from cur [] = (if cur = [] then [] else [cur])"
| "words_from cur (c # s) =
     (if is_space c then (if cur = [] then words_from [] s else cur # words_from [] s)
      else words_from (cur @ [c]) s)"

definition split_ws :: "ustr \<Rightarrow> ustr list" where
  \<comment> \<open>\<open>s.split()\<close>\<close>
  "split_ws s = words_from [] s"

fun join :: "ustr \<Rightarrow> ustr list \<Rightarrow> ustr" where
  \<comment> \<open>\<open>sep.join(parts)\<close>\<close>
  "join sep [] = []"
| "join sep [x] = x"
| "join sep (x # y # ys) = x @ sep @ join sep (y # ys)"

abbreviation (input) newline :: nat where "newline \<equiv> 10"

definition zfill :: "nat \<Rightarrow> ustr \<Rightarrow> ustr" where
  \<comment> \<open>\<open>s.zfill(width)\<close>: zeros on the left, after a leading sign\<close>
  "zfill width s =
     (if length s \<ge> width then s
      else (case s of
              c # s' \<Rightarrow>
                if c = of_char CHR ''+'' \<or> c = of_char CHR ''-''
                then c # replicate (width - length s) (of_char CHR ''0'') @ s'
                else replicate (width - length s) (of_char CHR ''0'') @ s
            | [] \<Rightarrow> replicate width (of_char CHR ''0'')))"

function str_of_nat :: "nat \<Rightarrow> ustr" where
  \<comment> \<open>\<open>str(n)\<close> of a natural number\<close>
  "str_of_nat n = (if n < 10 then [48 + n] else str_of_nat (n div 10) @ [48 + n mod 10])"
  by pat_completeness auto
termination
  by (relation "measure id") auto

definition str_of_int :: "int \<Rightarrow> ustr" where
  "str_of_int i = (if i < 0 then of_char CHR ''-'' # str_of_nat (nat (- i)) else str_of_nat (nat i))"

definition ascii_upper :: "ustr \<Rightarrow> ustr" where
  \<comment> \<open>\<open>s.upper()\<close> of an ASCII string\<close>
  "ascii_upper s = map (\<lambda>c. if 97 \<le> c \<and> c \<le> 122 then c - 32 else c) s"

section \<open>Title extraction: \<open>RussianEventExtractor.extract_title\<close>\<close>

text \<open>
  \<^verbatim>\<open>
  lines = text.split('\n')
  if lines:
      title = lines[0].strip()
      if len(title) > 100:
          title = title[:97] + '...'
      return title
  words = text.split()[:8]
  return ' '.join(words)[:100]
  \<close>
\<close>

definition extract_title :: "ustr \<Rightarrow> ustr" where
  "extract_title text =
     (case split_on newline text of
        first # _ \<Rightarrow>
          (let title = strip first
           in if length title > 100 then take 97 title @ asc ''...'' else title)
      | [] \<Rightarrow> take 100 (join (asc '' '') (take 8 (split_ws text))))"

text \<open>The spec's wording of the title, to compare with: the first line that is not empty.\<close>

definition first_nonempty_line :: "ustr \<Rightarrow> ustr option" where
  "first_nonempty_line text = find (\<lambda>l. l \<noteq> []) (split_on newline text)"

section \<open>PageFetcher: \<open>TelegramParserV2._fetch_page\<close>\<close>

text \<open>
  \<^verbatim>\<open>
  for attempt in range(self.max_retries):
      try:
          async with httpx.AsyncClient(timeout=self.timeout) as client:
              response = await client.get(url, headers=self.headers)
              if response.status_code == 200:
                  return response.text
              logging.warning(...)
      except httpx.RequestError as e:
          logging.warning(...)
      if attempt < self.max_retries - 1:
          wait_time = min(self.retry_delay * (2 ** attempt), 30)
          await asyncio.sleep(wait_time)
  return None
  \<close>
  The network is the environment: it gives, for each attempt number, what the GET does.
  An exception that is not an \<open>httpx.RequestError\<close> is not caught here and leaves the
  function. The model returns the result together with the trace of GETs and sleeps.
\<close>

datatype get_outcome =
    Response int ustr    \<comment> \<open>status code and body\<close>
  | RequestError         \<comment> \<open>\<open>httpx.RequestError\<close>: caught, retried\<close>
  | OtherError           \<comment> \<open>any other exception: propagates\<close>

datatype fetch_result =
    Page ustr            \<comment> \<open>\<open>return response.text\<close>\<close>
  | NoPage               \<comment> \<open>\<open>return None\<close>\<close>
  | FetchRaised          \<comment> \<open>an exception left \<open>_fetch_page\<close>\<close>

datatype fetch_event = Get nat | Sleep int

record fetch_config =
  max_retries :: int     \<comment> \<open>\<open>Config.PARSER_MAX_RETRIES\<close>\<close>
  retry_delay :: int     \<comment> \<open>\<open>Config.PARSER_RETRY_DELAY\<close>, seconds\<close>

definition wait_time :: "fetch_config \<Rightarrow> nat \<Rightarrow> int" where
  "wait_time cfg attempt = min (retry_delay cfg * 2 ^ attempt) 30"

definition after_failure :: "fetch_config \<Rightarrow> nat \<Rightarrow> fetch_event list" where
  \<comment> \<open>the \<open>if attempt < self.max_retries - 1\<close> block at the end of the loop body\<close>
  "after_failure cfg attempt =
     (if int attempt < max_retries cfg - 1 then [Sleep (wait_time cfg attempt)] else [])"

function fetch_from :: "fetch_config \<Rightarrow> (nat \<Rightarrow> get_outcome) \<Rightarrow> nat \<Rightarrow> fetch_result \<times> fetch_event list" where
  "fetch_from cfg net attempt =
     (if int attempt < max_retries cfg then
        (case net attempt of
           Response status body \<Rightarrow>
             if status = 200 then (Page body, [Get attempt])
             else (let (r, tr) = fetch_from cfg net (Suc attempt)
                   in (r, Get attempt # after_failure cfg attempt @ tr))
         | RequestError \<Rightarrow>
             (let (r, tr) = fetch_from cfg net (Suc attempt)
              in (r, Get attempt # after_failure cfg attempt @ tr))
         | OtherError \<Rightarrow> (FetchRaised, [Get attempt]))
      else (NoPage, []))"
  by pat_completeness auto
termination
  by (relation "measure (\<lambda>(cfg, net, attempt). nat (max_retries cfg) - attempt)") auto

definition fetch_page :: "fetch_config \<Rightarrow> (nat \<Rightarrow> get_outcome) \<Rightarrow> fetch_result \<times> fetch_event list" where
  "fetch_page cfg net = fetch_from cfg net 0"





definition config_defaults :: fetch_config where
  \<comment> \<open>\<open>PARSER_MAX_RETRIES = 3\<close>, \<open>PARSER_RETRY_DELAY = 2\<close> of \<open>config.py\<close>\<close>
  "config_defaults = \<lparr>max_retries = 3, retry_delay = 2\<rparr>"


section \<open>What the source takes from Python and its libraries\<close>

text \<open>
  The built-ins of \<open>str\<close> that depend on the Unicode tables are parameters of the model:
  every theorem below holds for whatever these functions are.
\<close>

record builtins =
  str_lower :: "ustr \<Rightarrow> ustr"            \<comment> \<open>\<open>s.lower()\<close>\<close>
  str_capitalize :: "ustr \<Rightarrow> ustr"       \<comment> \<open>\<open>s.capitalize()\<close>\<close>
  is_decimal :: "nat \<Rightarrow> bool"            \<comment> \<open>what \<open>\d\<close> matches in a \<open>str\<close> pattern\<close>
  is_alnum :: "nat \<Rightarrow> bool"              \<comment> \<open>\<open>\w\<close> matches these and the underscore\<close>
  decimal_value :: "nat \<Rightarrow> int"          \<comment> \<open>the digit a decimal character stands for\<close>

text \<open>A result of Python code that may raise.\<close>

datatype 'a py = Raised | Returned 'a

section \<open>MessagePager: \<open>TelegramParserV2._clean_text\<close> and \<open>parse_channel\<close>\<close>

definition skip_markers :: "ustr list" where
  \<comment> \<open>\<open>'views', 'forward', 'podpisat'sya', 'subscribe', 'reactions', 'kommentarij',
     'prosmotr'\<close> (the Russian words transliterated here)\<close>
  "skip_markers =
    [asc ''views'', asc ''forward'',
     [ru_pe, ru_o, ru_de, ru_pe, ru_i, ru_es, ru_a, ru_te, ru_soft, ru_es, ru_ya],
     asc ''subscribe'', asc ''reactions'',
     [ru_ka, ru_o, ru_em, ru_em, ru_ie, ru_en, ru_te, ru_a, ru_er, ru_i, ru_short_i],
     [ru_pe, ru_er, ru_o, ru_es, ru_em, ru_o, ru_te, ru_er]]"

text \<open>
  \<^verbatim>\<open>
  lines = []
  for line in text.split('\n'):
      line = line.strip()
      if not line:
          continue
      if any(skip in line.lower() for skip in [...]):
          continue
      lines.append(line)
  return '\n'.join(lines).strip()
  \<close>
\<close>

fun clean_lines :: "builtins \<Rightarrow> ustr list \<Rightarrow> ustr list" where
  "clean_lines B [] = []"
| "clean_lines B (raw # rest) =
     (let line = strip raw
      in if line = [] then clean_lines B rest
         else if list_ex (\<lambda>skip. contains (str_lower B line) skip) skip_markers
              then clean_lines B rest
         else line # clean_lines B rest)"

definition clean_text :: "builtins \<Rightarrow> ustr \<Rightarrow> ustr" where
  "clean_text B text = strip (join [newline] (clean_lines B (split_on newline text)))"

text \<open>
  What \<open>parse_channel\<close> reads of one \<open>div.tgme_widget_message\<close>: the \<open>datetime\<close> attribute
  of its \<open>time\<close> tag, the text of its \<open>div.tgme_widget_message_text\<close>, and its
  \<open>a.tgme_widget_message_date\<close> with the \<open>href\<close> that tag may lack. \<open>None\<close> is a tag that
  \<open>find\<close> does not find.
\<close>

record message_div =
  time_datetime :: "ustr option"
  text_div :: "ustr option"
  date_link :: "ustr option option"

record telegram_message =
  msg_id :: ustr
  msg_text :: ustr
  msg_datetime :: int        \<comment> \<open>the instant, in microseconds\<close>
  msg_url :: ustr
  msg_channel :: ustr
  message_hash :: ustr

text \<open>
  The libraries behind the pager. \<open>find_message_divs\<close> is
  \<open>BeautifulSoup(html, 'html.parser').find_all('div', class_='tgme_widget_message')\<close>;
  \<open>fromisoformat\<close> is \<open>datetime.fromisoformat\<close> followed by the conversion to Moscow time
  (a naive value is read as UTC), giving the instant; \<open>isoformat\<close> prints an instant as
  Moscow time; \<open>md5_hexdigest\<close> is \<open>hashlib.md5(s.encode('utf-8')).hexdigest()\<close>. \<open>None\<close>
  is an exception.
\<close>

record page_lib =
  find_message_divs :: "ustr \<Rightarrow> message_div list option"
  fromisoformat :: "ustr \<Rightarrow> int option"
  isoformat :: "int \<Rightarrow> ustr"
  md5_hexdigest :: "ustr \<Rightarrow> ustr option"

definition generate_message_hash :: "page_lib \<Rightarrow> ustr \<Rightarrow> int \<Rightarrow> ustr \<Rightarrow> ustr option" where
  \<comment> \<open>\<open>f"{message.text}|{message.datetime.isoformat()}|{message.channel}"\<close>, hashed\<close>
  "generate_message_hash L text dt channel =
     md5_hexdigest L (text @ asc ''|'' @ isoformat L dt @ asc ''|'' @ channel)"

text \<open>
  The body of the loop over the message blocks, up to the duplicate check: the message the
  block gives, or \<open>None\<close> where the source says \<open>continue\<close> (also from the \<open>except\<close> around
  the body).
\<close>

definition parse_div :: "builtins \<Rightarrow> page_lib \<Rightarrow> int \<Rightarrow> ustr \<Rightarrow> message_div \<Rightarrow> telegram_message option" where
  "parse_div B L cutoff_date channel_name d =
     (case time_datetime d of
        None \<Rightarrow> None
      | Some stamp \<Rightarrow>
     (case fromisoformat L stamp of
        None \<Rightarrow> None
      | Some msg_date \<Rightarrow>
          if msg_date < cutoff_date then None
          else
     (case text_div d of
        None \<Rightarrow> None
      | Some raw \<Rightarrow>
          (let text = clean_text B raw
           in if text = [] \<or> length text < 10 then None
              else
     (case date_link d of
        None \<Rightarrow> None
      | Some None \<Rightarrow> None
      | Some (Some href) \<Rightarrow>
     (case generate_message_hash L text msg_date channel_name of
        None \<Rightarrow> None
      | Some h \<Rightarrow>
          Some \<lparr>msg_id = last (split_on (of_char CHR ''/'') href), msg_text = text,
                msg_datetime = msg_date, msg_url = href, msg_channel = channel_name,
                message_hash = h\<rparr>))))))"

text \<open>
  The loop, with the set \<open>self.seen_messages\<close> passed through:
  \<^verbatim>\<open>
  if message.message_hash not in self.seen_messages:
      self.seen_messages.add(message.message_hash)
      messages.append(message)
  \<close>
\<close>

fun parse_divs :: "builtins \<Rightarrow> page_lib \<Rightarrow> int \<Rightarrow> ustr \<Rightarrow> message_div list \<Rightarrow> ustr set
    \<Rightarrow> telegram_message list \<times> ustr set" where
  "parse_divs B L cutoff_date channel_name [] seen = ([], seen)"
| "parse_divs B L cutoff_date channel_name (d # ds) seen =
     (case parse_div B L cutoff_date channel_name d of
        None \<Rightarrow> parse_divs B L cutoff_date channel_name ds seen
      | Some message \<Rightarrow>
          if message_hash message \<in> seen
          then parse_divs B L cutoff_date channel_name ds seen
          else (let (messages, seen') =
                      parse_divs B L cutoff_date channel_name ds
                        (insert (message_hash message) seen)
                in (message # messages, seen')))"

text \<open>
  Two properties of a message block, for the theorems: its cleaned text is empty or shorter
  than 10 characters; it has its timestamp, its text block and its permalink.
\<close>

definition too_short :: "builtins \<Rightarrow> message_div \<Rightarrow> bool" where
  "too_short B d \<longleftrightarrow>
     (case text_div d of None \<Rightarrow> False | Some raw \<Rightarrow> length (clean_text B raw) < 10)"

definition complete :: "message_div \<Rightarrow> bool" where
  "complete d \<longleftrightarrow>
     time_datetime d \<noteq> None \<and> text_div d \<noteq> None \<and>
     (case date_link d of Some (Some href) \<Rightarrow> True | _ \<Rightarrow> False)"

definition day_us :: int where
  "day_us = 86400000000"

text \<open>
  \<open>parse_channel\<close>: the page is fetched first; an exception of the fetch leaves the function,
  no page (or an empty one) gives \<open>[]\<close>, and so does an exception of the HTML parser.
  \<open>now\<close> is \<open>datetime.now(self.moscow_tz)\<close> as an instant.
\<close>

definition parse_channel :: "builtins \<Rightarrow> page_lib \<Rightarrow> fetch_config \<Rightarrow> (nat \<Rightarrow> get_outcome) \<Rightarrow> int \<Rightarrow> int
    \<Rightarrow> ustr \<Rightarrow> ustr set \<Rightarrow> telegram_message list py \<times> ustr set" where
  "parse_channel B L cfg net now days_back channel_name seen =
     (case fst (fetch_page cfg net) of
        FetchRaised \<Rightarrow> (Raised, seen)
      | NoPage \<Rightarrow> (Returned [], seen)
      | Page html \<Rightarrow>
          if html = [] then (Returned [], seen)
          else (let cutoff_date = now - days_back * day_us
                in case find_message_divs L html of
                     None \<Rightarrow> (Returned [], seen)
                   | Some message_divs \<Rightarrow>
                       (let (messages, seen') =
                              parse_divs B L cutoff_date channel_name message_divs seen
                        in (Returned messages, seen'))))"

section \<open>Regular expressions\<close>

text \<open>
  The patterns whose matches decide a claim are written out, and matched the way Python's
  \<open>re\<close> matches them: a backtracking search that tries the alternatives in order, the
  greedy repetitions longest first, and the start positions from left to right.
  \<open>Sym p\<close> is one character that satisfies \<open>p\<close>; \<open>Group n r\<close> is the capturing group
  number \<open>n\<close>; \<open>WordB\<close> is \<open>\b\<close>; \<open>NotAhead r\<close> is \<open>(?!r)\<close>.
\<close>

datatype rx =
    Sym "nat \<Rightarrow> bool"
  | Eps
  | Seq rx rx
  | Alt rx rx
  | Star rx
  | Group nat rx
  | WordB
  | NotAhead rx

text \<open>
  A state of the matcher: the character before the position (none at the start of the
  text), the text from the position on, and the groups captured so far, the latest first.
\<close>

type_synonym mstate = "nat option \<times> ustr \<times> (nat \<times> ustr) list"

definition remaining :: "mstate \<Rightarrow> ustr" where
  "remaining st = fst (snd st)"

definition captures :: "mstate \<Rightarrow> (nat \<times> ustr) list" where
  "captures st = snd (snd st)"

definition at_boundary :: "(nat \<Rightarrow> bool) \<Rightarrow> nat option \<Rightarrow> ustr \<Rightarrow> bool" where
  \<comment> \<open>\<open>\b\<close>: a word character on exactly one side of the position\<close>
  "at_boundary w prev s =
     ((case prev of None \<Rightarrow> False | Some c \<Rightarrow> w c) \<noteq> (case s of [] \<Rightarrow> False | c # _ \<Rightarrow> w c))"

text \<open>
  All the ways the pattern matches at a position, in the order the backtracking search
  would find them. A repetition goes on only after an iteration that consumed something.
\<close>

function run :: "(nat \<Rightarrow> bool) \<Rightarrow> rx \<Rightarrow> mstate \<Rightarrow> mstate list" where
  "run w (Sym p) st =
     (case remaining st of
        [] \<Rightarrow> []
      | c # s' \<Rightarrow> if p c then [(Some c, s', captures st)] else [])"
| "run w Eps st = [st]"
| "run w (Seq a b) st = concat (map (run w b) (run w a st))"
| "run w (Alt a b) st = run w a st @ run w b st"
| "run w (Star a) st =
     concat (map (\<lambda>st'. if length (remaining st') < length (remaining st)
                         then run w (Star a) st' else [])
                 (run w a st)) @ [st]"
| "run w (Group n a) st =
     map (\<lambda>st'. (fst st', remaining st',
                  (n, take (length (remaining st) - length (remaining st')) (remaining st))
                    # captures st'))
         (run w a st)"
| "run w WordB st = (if at_boundary w (fst st) (remaining st) then [st] else [])"
| "run w (NotAhead a) st = (if run w a st = [] then [st] else [])"
  by pat_completeness auto
termination
  by (relation "inv_image (measure size <*lex*> measure length) (\<lambda>(w, r, st). (r, remaining st))")
     auto

text \<open>A match: the text matched and the groups.\<close>

type_synonym rmatch = "ustr \<times> (nat \<times> ustr) list"

fun search_from :: "(nat \<Rightarrow> bool) \<Rightarrow> rx \<Rightarrow> nat option \<Rightarrow> ustr \<Rightarrow> rmatch option" where
  "search_from w r prev s =
     (case run w r (prev, s, []) of
        st # _ \<Rightarrow> Some (take (length s - length (remaining st)) s, captures st)
      | [] \<Rightarrow> (case s of [] \<Rightarrow> None | c # s' \<Rightarrow> search_from w r (Some c) s'))"

definition re_search :: "(nat \<Rightarrow> bool) \<Rightarrow> rx \<Rightarrow> ustr \<Rightarrow> rmatch option" where
  \<comment> \<open>\<open>re.search(pattern, s)\<close>; \<open>w\<close> tells the word characters\<close>
  "re_search w r s = search_from w r None s"

text \<open>The equations of the matcher are unfolded only where a proof asks for them.\<close>

declare run.simps [simp del]
declare search_from.simps [simp del]

definition group_opt :: "rmatch \<Rightarrow> nat \<Rightarrow> ustr option" where
  \<comment> \<open>a group of \<open>match.groups()\<close>; \<open>None\<close> when the group took no part in the match\<close>
  "group_opt m n = map_of (snd m) n"

definition grp :: "rmatch \<Rightarrow> nat \<Rightarrow> ustr" where
  \<comment> \<open>a group that is not optional in its pattern: it takes part in every match\<close>
  "grp m n = (case group_opt m n of Some g \<Rightarrow> g | None \<Rightarrow> [])"

subsection \<open>Building patterns\<close>

definition lit :: "char \<Rightarrow> rx" where
  "lit c = Sym (\<lambda>x. x = of_char c)"

definition digit :: "builtins \<Rightarrow> rx" where
  \<comment> \<open>\<open>\d\<close>\<close>
  "digit B = Sym (is_decimal B)"

definition space :: rx where
  \<comment> \<open>\<open>\s\<close>\<close>
  "space = Sym is_space"

definition word_char :: "builtins \<Rightarrow> nat \<Rightarrow> bool" where
  \<comment> \<open>\<open>\w\<close>\<close>
  "word_char B c \<longleftrightarrow> is_alnum B c \<or> c = of_char CHR ''_''"

fun seqs :: "rx list \<Rightarrow> rx" where
  "seqs [] = Eps"
| "seqs [r] = r"
| "seqs (r # rs) = Seq r (seqs rs)"

fun alts :: "rx list \<Rightarrow> rx" where
  "alts [] = Sym (\<lambda>_. False)"
| "alts [r] = r"
| "alts (r # rs) = Alt r (alts rs)"

definition one_or_two :: "rx \<Rightarrow> rx" where
  \<comment> \<open>\<open>r{1,2}\<close>\<close>
  "one_or_two r = Seq r (Alt r Eps)"

definition plus :: "rx \<Rightarrow> rx" where
  \<comment> \<open>\<open>r+\<close>\<close>
  "plus r = Seq r (Star r)"

definition optional :: "rx \<Rightarrow> rx" where
  \<comment> \<open>\<open>r?\<close>\<close>
  "optional r = Alt r Eps"

definition word_rx :: "ustr \<Rightarrow> rx" where
  \<comment> \<open>a literal word\<close>
  "word_rx word = seqs (map (\<lambda>c. Sym (\<lambda>x. x = c)) word)"

text \<open>
  Two properties of a pattern, for the theorems: every match of it captures the group
  \<open>n\<close>; the group \<open>n\<close> occurs in it.
\<close>

fun always_captures :: "nat \<Rightarrow> rx \<Rightarrow> bool" where
  "always_captures n (Group k a) = (k = n \<or> always_captures n a)"
| "always_captures n (Seq a b) = (always_captures n a \<or> always_captures n b)"
| "always_captures n (Alt a b) = (always_captures n a \<and> always_captures n b)"
| "always_captures n r = False"

fun mentions :: "nat \<Rightarrow> rx \<Rightarrow> bool" where
  "mentions n (Group k a) = (k = n \<or> mentions n a)"
| "mentions n (Seq a b) = (mentions n a \<or> mentions n b)"
| "mentions n (Alt a b) = (mentions n a \<or> mentions n b)"
| "mentions n (Star a) = mentions n a"
| "mentions n (NotAhead a) = False"
| "mentions n r = False"

section \<open>Calendar dates\<close>

record date =
  d_year :: int
  d_month :: int
  d_day :: int

definition is_leap :: "int \<Rightarrow> bool" where
  "is_leap y \<longleftrightarrow> y mod 4 = 0 \<and> (y mod 100 \<noteq> 0 \<or> y mod 400 = 0)"

definition days_in_month :: "int \<Rightarrow> int \<Rightarrow> int" where
  "days_in_month y m =
     (if m = 2 then (if is_leap y then 29 else 28)
      else if m = 4 \<or> m = 6 \<or> m = 9 \<or> m = 11 then 30 else 31)"

definition valid_date :: "int \<Rightarrow> int \<Rightarrow> int \<Rightarrow> bool" where
  \<comment> \<open>\<open>datetime(y, m, d)\<close> does not raise \<open>ValueError\<close>\<close>
  "valid_date y m d \<longleftrightarrow>
     1 \<le> y \<and> y \<le> 9999 \<and> 1 \<le> m \<and> m \<le> 12 \<and> 1 \<le> d \<and> d \<le> days_in_month y m"

definition next_day :: "date \<Rightarrow> date" where
  "next_day t =
     (if d_day t < days_in_month (d_year t) (d_month t) then t\<lparr>d_day := d_day t + 1\<rparr>
      else if d_month t < 12 then t\<lparr>d_month := d_month t + 1, d_day := 1\<rparr>
      else \<lparr>d_year = d_year t + 1, d_month = 1, d_day = 1\<rparr>)"

fun add_days :: "nat \<Rightarrow> date \<Rightarrow> date" where
  \<comment> \<open>\<open>t + timedelta(days=n)\<close>, the date of it\<close>
  "add_days 0 t = t"
| "add_days (Suc n) t = add_days n (next_day t)"

definition strftime_dmy :: "date \<Rightarrow> ustr" where
  \<comment> \<open>\<open>t.strftime('%d.%m.%Y')\<close>\<close>
  "strftime_dmy t =
     zfill 2 (str_of_int (d_day t)) @ asc ''.'' @ zfill 2 (str_of_int (d_month t)) @ asc ''.''
       @ zfill 4 (str_of_int (d_year t))"

section \<open>FieldExtractors and EventClassifier: \<open>RussianEventExtractor\<close>\<close>

subsection \<open>Literals of the source\<close>

definition zavtra :: ustr where
  \<comment> \<open>\<open>'zavtra'\<close>, tomorrow\<close>
  "zavtra = [ru_ze, ru_a, ru_ve, ru_te, ru_er, ru_a]"

definition segodnya :: ustr where
  \<comment> \<open>\<open>'segodnya'\<close>, today\<close>
  "segodnya = [ru_es, ru_ie, ru_ghe, ru_o, ru_de, ru_en, ru_ya]"

definition poslezavtra :: ustr where
  \<comment> \<open>\<open>'poslezavtra'\<close>, the day after tomorrow\<close>
  "poslezavtra = [ru_pe, ru_o, ru_es, ru_el, ru_ie, ru_ze, ru_a, ru_ve, ru_te, ru_er, ru_a]"

definition ne_ukazana :: ustr where
  \<comment> \<open>\<open>"Ne ukazana"\<close>, not given (of the date)\<close>
  "ne_ukazana = [ru_cap_en, ru_ie] @ asc '' '' @ [ru_u, ru_ka, ru_a, ru_ze, ru_a, ru_en, ru_a]"

definition ne_ukazano :: ustr where
  \<comment> \<open>\<open>"Ne ukazano"\<close>, not given (of the time and of the place)\<close>
  "ne_ukazano = [ru_cap_en, ru_ie] @ asc '' '' @ [ru_u, ru_ka, ru_a, ru_ze, ru_a, ru_en, ru_o]"

definition onlajn :: ustr where
  \<comment> \<open>\<open>'onlajn'\<close>\<close>
  "onlajn = [ru_o, ru_en, ru_el, ru_a, ru_short_i, ru_en]"

definition translyaciya :: ustr where
  \<comment> \<open>\<open>'translyaciya'\<close>, broadcast\<close>
  "translyaciya = [ru_te, ru_er, ru_a, ru_en, ru_es, ru_el, ru_ya, ru_tse, ru_i, ru_ya]"

definition vebinar :: ustr where
  \<comment> \<open>\<open>'vebinar'\<close>\<close>
  "vebinar = [ru_ve, ru_ie, ru_be, ru_i, ru_en, ru_a, ru_er]"

definition mospoliteh :: ustr where
  "mospoliteh = [ru_em, ru_o, ru_es, ru_pe, ru_o, ru_el, ru_i, ru_te, ru_ie, ru_ha]"

definition politeh :: ustr where
  "politeh = [ru_pe, ru_o, ru_el, ru_i, ru_te, ru_ie, ru_ha]"

definition Onlajn :: ustr where
  \<comment> \<open>\<open>"Onlajn"\<close>, capitalised\<close>
  "Onlajn = [ru_cap_o, ru_en, ru_el, ru_a, ru_short_i, ru_en]"

definition Moskovskij_Politeh :: ustr where
  "Moskovskij_Politeh =
     [ru_cap_em, ru_o, ru_es, ru_ka, ru_o, ru_ve, ru_es, ru_ka, ru_i, ru_short_i] @ asc '' ''
       @ [ru_cap_pe, ru_o, ru_el, ru_i, ru_te, ru_ie, ru_ha]"

text \<open>
  \<open>self.event_keywords\<close>, transliterated: meropriyatie, sobytie, vstrecha, provodit, priglashaem, priglashaet, sostoitsya, projdet, provoditsya, organizuyut, ob'yavlyaet, ob'yavlyayut, zapis', registraciya, anons, ustraivaet, ustraivayut, raspisanie, grafik, nachinaetsya, nachalo, startuet, zapuskaem.
\<close>

definition event_keywords :: "ustr list" where
  "event_keywords =
    [[ru_em, ru_ie, ru_er, ru_o, ru_pe, ru_er, ru_i, ru_ya, ru_te, ru_i, ru_ie],
     [ru_es, ru_o, ru_be, ru_yeru, ru_te, ru_i, ru_ie],
     [ru_ve, ru_es, ru_te, ru_er, ru_ie, ru_che, ru_a],
     [ru_pe, ru_er, ru_o, ru_ve, ru_o, ru_de, ru_i, ru_te],
     [ru_pe, ru_er, ru_i, ru_ghe, ru_el, ru_a, ru_sha, ru_a, ru_ie, ru_em],
     [ru_pe, ru_er, ru_i, ru_ghe, ru_el, ru_a, ru_sha, ru_a, ru_ie, ru_te],
     [ru_es, ru_o, ru_es, ru_te, ru_o, ru_i, ru_te, ru_es, ru_ya],
     [ru_pe, ru_er, ru_o, ru_short_i, ru_de, ru_ie, ru_te],
     [ru_pe, ru_er, ru_o, ru_ve, ru_o, ru_de, ru_i, ru_te, ru_es, ru_ya],
     [ru_o, ru_er, ru_ghe, ru_a, ru_en, ru_i, ru_ze, ru_u, ru_yu, ru_te],
     [ru_o, ru_be, ru_hard, ru_ya, ru_ve, ru_el, ru_ya, ru_ie, ru_te],
     [ru_o, ru_be, ru_hard, ru_ya, ru_ve, ru_el, ru_ya, ru_yu, ru_te],
     [ru_ze, ru_a, ru_pe, ru_i, ru_es, ru_soft],
     [ru_er, ru_ie, ru_ghe, ru_i, ru_es, ru_te, ru_er, ru_a, ru_tse, ru_i, ru_ya],
     [ru_a, ru_en, ru_o, ru_en, ru_es],
     [ru_u, ru_es, ru_te, ru_er, ru_a, ru_i, ru_ve, ru_a, ru_ie, ru_te],
     [ru_u, ru_es, ru_te, ru_er, ru_a, ru_i, ru_ve, ru_a, ru_yu, ru_te],
     [ru_er, ru_a, ru_es, ru_pe, ru_i, ru_es, ru_a, ru_en, ru_i, ru_ie],
     [ru_ghe, ru_er, ru_a, ru_ef, ru_i, ru_ka],
     [ru_en, ru_a, ru_che, ru_i, ru_en, ru_a, ru_ie, ru_te, ru_es, ru_ya],
     [ru_en, ru_a, ru_che, ru_a, ru_el, ru_o],
     [ru_es, ru_te, ru_a, ru_er, ru_te, ru_u, ru_ie, ru_te],
     [ru_ze, ru_a, ru_pe, ru_u, ru_es, ru_ka, ru_a, ru_ie, ru_em]]"


text \<open>
  \<open>self.category_keywords\<close>, in the order the dictionary declares them; transliterated:
  \<^item> education: lekciya, seminar, master-klass, trening, kurs, shkola, konferenciya, debaty, praktikum, konsul'taciya
  \<^item> career: proforientaciya, kar'era, stazhirovka, internsh, sobesedovanie, rabota, vakansiya, centr kar'ery
  \<^item> competitions: konkurs, festival', olimpiada, chempionat, turnir, sorevnovanie, konkurs tvorchestva, konkurs proektov
  \<^item> exhibitions: vystavka, ekspoziciya, vystavochnyj, galereya, installyaciya
  \<^item> culture: koncert, vystuplenie, tanec, tanceval'nyj, kino, fil'm, illyuzion, shou, performans, predstavlenie, spektakl', tvorcheskij, vokal'nyj
  \<^item> volunteering: volonter, volontyorsk, social'n, blagotvoritel, pomoshch', akciya, iniciativa, proekt, obshchestvenn
  \<^item> student-life: studenchesk, student, vstrecha, klub, soobshchestvo, tvorcheskaya masterskaya, sobranie, samoupravleni, soupravleni
\<close>

definition category_keywords :: "(string \<times> ustr list) list" where
  "category_keywords =
    [(''education'',
      [[ru_el, ru_ie, ru_ka, ru_tse, ru_i, ru_ya],
       [ru_es, ru_ie, ru_em, ru_i, ru_en, ru_a, ru_er],
       [ru_em, ru_a, ru_es, ru_te, ru_ie, ru_er] @ asc ''-'' @ [ru_ka, ru_el, ru_a, ru_es, ru_es],
       [ru_te, ru_er, ru_ie, ru_en, ru_i, ru_en, ru_ghe], [ru_ka, ru_u, ru_er, ru_es],
       [ru_sha, ru_ka, ru_o, ru_el, ru_a],
       [ru_ka, ru_o, ru_en, ru_ef, ru_ie, ru_er, ru_ie, ru_en, ru_tse, ru_i, ru_ya],
       [ru_de, ru_ie, ru_be, ru_a, ru_te, ru_yeru],
       [ru_pe, ru_er, ru_a, ru_ka, ru_te, ru_i, ru_ka, ru_u, ru_em],
       [ru_ka, ru_o, ru_en, ru_es, ru_u, ru_el, ru_soft, ru_te, ru_a, ru_tse, ru_i, ru_ya]]),
     (''career'',
      [[ru_pe, ru_er, ru_o, ru_ef, ru_o, ru_er, ru_i, ru_ie, ru_en, ru_te, ru_a, ru_tse, ru_i, ru_ya],
       [ru_ka, ru_a, ru_er, ru_soft, ru_ie, ru_er, ru_a],
       [ru_es, ru_te, ru_a, ru_zhe, ru_i, ru_er, ru_o, ru_ve, ru_ka, ru_a],
       [ru_i, ru_en, ru_te, ru_ie, ru_er, ru_en, ru_sha],
       [ru_es, ru_o, ru_be, ru_ie, ru_es, ru_ie, ru_de, ru_o, ru_ve, ru_a, ru_en, ru_i, ru_ie],
       [ru_er, ru_a, ru_be, ru_o, ru_te, ru_a],
       [ru_ve, ru_a, ru_ka, ru_a, ru_en, ru_es, ru_i, ru_ya],
       [ru_tse, ru_ie, ru_en, ru_te, ru_er] @ asc '' '' @ [ru_ka, ru_a, ru_er, ru_soft, ru_ie, ru_er, ru_yeru]]),
     (''competitions'',
      [[ru_ka, ru_o, ru_en, ru_ka, ru_u, ru_er, ru_es],
       [ru_ef, ru_ie, ru_es, ru_te, ru_i, ru_ve, ru_a, ru_el, ru_soft],
       [ru_o, ru_el, ru_i, ru_em, ru_pe, ru_i, ru_a, ru_de, ru_a],
       [ru_che, ru_ie, ru_em, ru_pe, ru_i, ru_o, ru_en, ru_a, ru_te],
       [ru_te, ru_u, ru_er, ru_en, ru_i, ru_er],
       [ru_es, ru_o, ru_er, ru_ie, ru_ve, ru_en, ru_o, ru_ve, ru_a, ru_en, ru_i, ru_ie],
       [ru_ka, ru_o, ru_en, ru_ka, ru_u, ru_er, ru_es] @ asc '' '' @ [ru_te, ru_ve, ru_o, ru_er, ru_che, ru_ie, ru_es, ru_te, ru_ve, ru_a],
       [ru_ka, ru_o, ru_en, ru_ka, ru_u, ru_er, ru_es] @ asc '' '' @ [ru_pe, ru_er, ru_o, ru_ie, ru_ka, ru_te, ru_o, ru_ve]]),
     (''exhibitions'',
      [[ru_ve, ru_yeru, ru_es, ru_te, ru_a, ru_ve, ru_ka, ru_a],
       [ru_e, ru_ka, ru_es, ru_pe, ru_o, ru_ze, ru_i, ru_tse, ru_i, ru_ya],
       [ru_ve, ru_yeru, ru_es, ru_te, ru_a, ru_ve, ru_o, ru_che, ru_en, ru_yeru, ru_short_i],
       [ru_ghe, ru_a, ru_el, ru_ie, ru_er, ru_ie, ru_ya],
       [ru_i, ru_en, ru_es, ru_te, ru_a, ru_el, ru_el, ru_ya, ru_tse, ru_i, ru_ya]]),
     (''culture'',
      [[ru_ka, ru_o, ru_en, ru_tse, ru_ie, ru_er, ru_te],
       [ru_ve, ru_yeru, ru_es, ru_te, ru_u, ru_pe, ru_el, ru_ie, ru_en, ru_i, ru_ie],
       [ru_te, ru_a, ru_en, ru_ie, ru_tse],
       [ru_te, ru_a, ru_en, ru_tse, ru_ie, ru_ve, ru_a, ru_el, ru_soft, ru_en, ru_yeru, ru_short_i],
       [ru_ka, ru_i, ru_en, ru_o], [ru_ef, ru_i, ru_el, ru_soft, ru_em],
       [ru_i, ru_el, ru_el, ru_yu, ru_ze, ru_i, ru_o, ru_en], [ru_sha, ru_o, ru_u],
       [ru_pe, ru_ie, ru_er, ru_ef, ru_o, ru_er, ru_em, ru_a, ru_en, ru_es],
       [ru_pe, ru_er, ru_ie, ru_de, ru_es, ru_te, ru_a, ru_ve, ru_el, ru_ie, ru_en, ru_i, ru_ie],
       [ru_es, ru_pe, ru_ie, ru_ka, ru_te, ru_a, ru_ka, ru_el, ru_soft],
       [ru_te, ru_ve, ru_o, ru_er, ru_che, ru_ie, ru_es, ru_ka, ru_i, ru_short_i],
       [ru_ve, ru_o, ru_ka, ru_a, ru_el, ru_soft, ru_en, ru_yeru, ru_short_i]]),
     (''volunteering'',
      [[ru_ve, ru_o, ru_el, ru_o, ru_en, ru_te, ru_ie, ru_er],
       [ru_ve, ru_o, ru_el, ru_o, ru_en, ru_te, ru_io, ru_er, ru_es, ru_ka],
       [ru_es, ru_o, ru_tse, ru_i, ru_a, ru_el, ru_soft, ru_en],
       [ru_be, ru_el, ru_a, ru_ghe, ru_o, ru_te, ru_ve, ru_o, ru_er, ru_i, ru_te, ru_ie, ru_el],
       [ru_pe, ru_o, ru_em, ru_o, ru_shcha, ru_soft], [ru_a, ru_ka, ru_tse, ru_i, ru_ya],
       [ru_i, ru_en, ru_i, ru_tse, ru_i, ru_a, ru_te, ru_i, ru_ve, ru_a],
       [ru_pe, ru_er, ru_o, ru_ie, ru_ka, ru_te],
       [ru_o, ru_be, ru_shcha, ru_ie, ru_es, ru_te, ru_ve, ru_ie, ru_en, ru_en]]),
     (''student_life'',
      [[ru_es, ru_te, ru_u, ru_de, ru_ie, ru_en, ru_che, ru_ie, ru_es, ru_ka],
       [ru_es, ru_te, ru_u, ru_de, ru_ie, ru_en, ru_te],
       [ru_ve, ru_es, ru_te, ru_er, ru_ie, ru_che, ru_a], [ru_ka, ru_el, ru_u, ru_be],
       [ru_es, ru_o, ru_o, ru_be, ru_shcha, ru_ie, ru_es, ru_te, ru_ve, ru_o],
       [ru_te, ru_ve, ru_o, ru_er, ru_che, ru_ie, ru_es, ru_ka, ru_a, ru_ya] @ asc '' '' @ [ru_em, ru_a, ru_es, ru_te, ru_ie, ru_er, ru_es, ru_ka, ru_a, ru_ya],
       [ru_es, ru_o, ru_be, ru_er, ru_a, ru_en, ru_i, ru_ie],
       [ru_es, ru_a, ru_em, ru_o, ru_u, ru_pe, ru_er, ru_a, ru_ve, ru_el, ru_ie, ru_en, ru_i],
       [ru_es, ru_o, ru_u, ru_pe, ru_er, ru_a, ru_ve, ru_el, ru_ie, ru_en, ru_i]])]"


text \<open>
  \<open>time_words\<close>, the day-part words of \<open>extract_time\<close>; transliterated: utro to 09:00, dnyom to 14:00, dnem to 14:00, vecher to 18:00, noch' to 20:00.
\<close>

definition time_words :: "(ustr \<times> ustr) list" where
  "time_words =
    [([ru_u, ru_te, ru_er, ru_o], asc ''09:00''),
     ([ru_de, ru_en, ru_io, ru_em], asc ''14:00''),
     ([ru_de, ru_en, ru_ie, ru_em], asc ''14:00''),
     ([ru_ve, ru_ie, ru_che, ru_ie, ru_er], asc ''18:00''),
     ([ru_en, ru_o, ru_che, ru_soft], asc ''20:00'')]"


text \<open>
  \<open>locations_keywords\<close>, the venue table of \<open>extract_location\<close>; transliterated: stadion to Stadion Politeha, teatr to Teatr, koncertnyj zal to Koncertnyj zal, sportzal to Sportzal, aktovyj zal to Aktovyj zal, konferenc-zal to Konferenc-zal.
\<close>

definition locations_keywords :: "(ustr \<times> ustr) list" where
  "locations_keywords =
    [([ru_es, ru_te, ru_a, ru_de, ru_i, ru_o, ru_en], [ru_cap_es, ru_te, ru_a, ru_de, ru_i, ru_o, ru_en] @ asc '' '' @ [ru_cap_pe, ru_o, ru_el, ru_i, ru_te, ru_ie, ru_ha, ru_a]),
     ([ru_te, ru_ie, ru_a, ru_te, ru_er], [ru_cap_te, ru_ie, ru_a, ru_te, ru_er]),
     ([ru_ka, ru_o, ru_en, ru_tse, ru_ie, ru_er, ru_te, ru_en, ru_yeru, ru_short_i] @ asc '' '' @ [ru_ze, ru_a, ru_el], [ru_cap_ka, ru_o, ru_en, ru_tse, ru_ie, ru_er, ru_te, ru_en, ru_yeru, ru_short_i] @ asc '' '' @ [ru_ze, ru_a, ru_el]),
     ([ru_es, ru_pe, ru_o, ru_er, ru_te, ru_ze, ru_a, ru_el], [ru_cap_es, ru_pe, ru_o, ru_er, ru_te, ru_ze, ru_a, ru_el]),
     ([ru_a, ru_ka, ru_te, ru_o, ru_ve, ru_yeru, ru_short_i] @ asc '' '' @ [ru_ze, ru_a, ru_el], [ru_cap_a, ru_ka, ru_te, ru_o, ru_ve, ru_yeru, ru_short_i] @ asc '' '' @ [ru_ze, ru_a, ru_el]),
     ([ru_ka, ru_o, ru_en, ru_ef, ru_ie, ru_er, ru_ie, ru_en, ru_tse] @ asc ''-'' @ [ru_ze, ru_a, ru_el], [ru_cap_ka, ru_o, ru_en, ru_ef, ru_ie, ru_er, ru_ie, ru_en, ru_tse] @ asc ''-'' @ [ru_ze, ru_a, ru_el])]"


text \<open>
  \<open>month_names\<close>, the month table of \<open>extract_date\<close>; transliterated: yanvarya to 1, fevralya to 2, marta to 3, aprelya to 4, maya to 5, iyunya to 6, iyulya to 7, avgusta to 8, sentyabrya to 9, oktyabrya to 10, noyabrya to 11, dekabrya to 12.
\<close>

definition month_names :: "(ustr \<times> int) list" where
  "month_names =
    [([ru_ya, ru_en, ru_ve, ru_a, ru_er, ru_ya], 1),
     ([ru_ef, ru_ie, ru_ve, ru_er, ru_a, ru_el, ru_ya], 2),
     ([ru_em, ru_a, ru_er, ru_te, ru_a], 3),
     ([ru_a, ru_pe, ru_er, ru_ie, ru_el, ru_ya], 4),
     ([ru_em, ru_a, ru_ya], 5),
     ([ru_i, ru_yu, ru_en, ru_ya], 6),
     ([ru_i, ru_yu, ru_el, ru_ya], 7),
     ([ru_a, ru_ve, ru_ghe, ru_u, ru_es, ru_te, ru_a], 8),
     ([ru_es, ru_ie, ru_en, ru_te, ru_ya, ru_be, ru_er, ru_ya], 9),
     ([ru_o, ru_ka, ru_te, ru_ya, ru_be, ru_er, ru_ya], 10),
     ([ru_en, ru_o, ru_ya, ru_be, ru_er, ru_ya], 11),
     ([ru_de, ru_ie, ru_ka, ru_a, ru_be, ru_er, ru_ya], 12)]"


definition online_platforms :: "ustr list" where
  "online_platforms = [asc ''zoom'', asc ''teams'', asc ''skype'', asc ''discord'', asc ''youtube'', asc ''youtube live'']"


subsection \<open>The patterns of the extractors\<close>

text \<open>
  The patterns of \<open>extract_date\<close> and \<open>extract_time\<close>:
  \<^item> \<^verbatim>\<open>(\d{1,2})\.(\d{1,2})\.(\d{4})\<close>
  \<^item> \<^verbatim>\<open>(\d{1,2})\.(\d{1,2})(?!\.)\<close>
  \<^item> \<^verbatim>\<open>(\d{1,2})\s+(yanvarya|...|dekabrya)(?:\s+(\d{4}))?\<close>, the twelve month names in
    the order of \<open>month_names\<close>
  \<^item> \<^verbatim>\<open>(\d{1,2}):(\d{2})\s*-\s*(\d{1,2}):(\d{2})\<close>
  \<^item> \<^verbatim>\<open>\b(\d{1,2}):(\d{2})\b\<close>
\<close>

definition date_full_rx :: "builtins \<Rightarrow> rx" where
  "date_full_rx B =
     seqs [Group 1 (one_or_two (digit B)), lit CHR ''.'', Group 2 (one_or_two (digit B)),
           lit CHR ''.'', Group 3 (seqs [digit B, digit B, digit B, digit B])]"

definition date_short_rx :: "builtins \<Rightarrow> rx" where
  "date_short_rx B =
     seqs [Group 1 (one_or_two (digit B)), lit CHR ''.'', Group 2 (one_or_two (digit B)),
           NotAhead (lit CHR ''.'')]"

definition date_words_rx :: "builtins \<Rightarrow> rx" where
  "date_words_rx B =
     seqs [Group 1 (one_or_two (digit B)), plus space,
           Group 2 (alts (map (\<lambda>(name, number). word_rx name) month_names)),
           optional (seqs [plus space, Group 3 (seqs [digit B, digit B, digit B, digit B])])]"

definition time_range_rx :: "builtins \<Rightarrow> rx" where
  "time_range_rx B =
     seqs [Group 1 (one_or_two (digit B)), lit CHR '':'', Group 2 (seqs [digit B, digit B]),
           Star space, lit CHR ''-'', Star space,
           Group 3 (one_or_two (digit B)), lit CHR '':'', Group 4 (seqs [digit B, digit B])]"

definition time_single_rx :: "builtins \<Rightarrow> rx" where
  "time_single_rx B =
     seqs [WordB, Group 1 (one_or_two (digit B)), lit CHR '':'', Group 2 (seqs [digit B, digit B]),
           WordB]"

text \<open>
  The other patterns are matched with \<open>re.IGNORECASE\<close>, whose case folding is Python's; they
  are named here and their matching is a parameter. The three lists of \<open>_compile_patterns\<close>,
  in their order (the Russian letters transliterated, the numero sign written \<open>No\<close>):
  \<^item> \<open>date_patterns\<close>:
    \<^verbatim>\<open>\b(\d{1,2})\.(\d{1,2})\.(\d{4})\b\<close>;
    \<^verbatim>\<open>\b(\d{1,2})\.(\d{1,2})\b(?!\.)\<close>;
    \<^verbatim>\<open>\b(ponedel'nik|vtornik|sreda|chetverg|pyatnica|subbota|voskresen'e)\b\<close>;
    \<^verbatim>\<open>\b(\d{1,2})(\s+)(yanvarya|...|dekabrya)(\s+)?(\d{4})?\b\<close>;
    \<^verbatim>\<open>\b(zavtra|segodnya|poslezavtra|sejchas)\b\<close>;
    \<^verbatim>\<open>\b(na|v)\s+(sleduyushchej|etoj|etoj\s+)?[^.]*?(nedele|dnyu|data)\b\<close>
  \<^item> \<open>time_patterns\<close>:
    \<^verbatim>\<open>\b(\d{1,2}):(\d{2})\b\<close>;
    \<^verbatim>\<open>\b(v|s|s\s+|do|po)\s+(\d{1,2}):(\d{2})\b\<close>;
    \<^verbatim>\<open>\b(\d{1,2}):(\d{2})\s*-\s*(\d{1,2}):(\d{2})\b\<close>;
    \<^verbatim>\<open>\b(utrom|dnyom|dnem|vecherom|noch'yu|s\s+utra|do\s+vechera)\b\<close>
  \<^item> \<open>location_patterns\<close>:
    \<^verbatim>\<open>\b(v|na)\s+(auditori[yae]|korpus[ea]|zal[ea]|pomeshcheni[yae]|kabinet[ea]|komnat[ea]|sportzal[ea]|aktovom\s+zal[ea]|konferenc-zal[ea]|amfiteatr[ea])\s+([No#]?\d+|\w+)\<close>;
    \<^verbatim>\<open>\b(na|v|pri)\s+(stadion[ea]|teatr[ea]|kinoteatr[ea]|muze[ea]|park[ea]|skver[ea]|centr[ea]|ofis[ea]|restoran[ea]|kafe)\<close>;
    \<^verbatim>\<open>\b(onlajn|zoom|microsoft\s+teams|skype|discord|youtube|translyaciya|vebinar|videokonferenciya)\b\<close>;
    \<^verbatim>\<open>\b(ul\.|ulic[ai])\s+([A-YAa-yaYOyo\s]+?)(?:,|$)\<close>;
    \<^verbatim>\<open>\b(mospoliteh|mos\s?politeh|moskovsk[ij]?\s+politeh)\<close>
\<close>

datatype pattern =
    DateNumericFull | DateNumericShort | DateWeekday | DateWords | DateRelative | DateWeek
  | TimeClock | TimeWithPreposition | TimeRange | TimeDayPart
  | PlaceRoom | PlaceVenue | PlaceOnline | PlaceStreet | PlaceUniversity

definition date_patterns :: "pattern list" where
  "date_patterns =
     [DateNumericFull, DateNumericShort, DateWeekday, DateWords, DateRelative, DateWeek]"

definition time_patterns :: "pattern list" where
  "time_patterns = [TimeClock, TimeWithPreposition, TimeRange, TimeDayPart]"

definition location_patterns :: "pattern list" where
  "location_patterns = [PlaceRoom, PlaceVenue, PlaceOnline, PlaceStreet, PlaceUniversity]"

text \<open>
  \<open>found p text\<close> is \<open>re.search(p, text, re.IGNORECASE)\<close> giving a match, for the patterns of
  the three lists. \<open>search_room text\<close> is the search of \<open>extract_location\<close> for
  \<^verbatim>\<open>\b(auditori[yae]|korpus[ea]|kabinet[ea]|pomeshcheni[yae]|zal[ea])\s+([No#]?[\dA-YAa-yaYOyo\s\-/]+?)(?:\n|,|\.|$)\<close>
  (transliterated; with \<open>re.IGNORECASE\<close>): its two groups, the kind of room and the number.
\<close>

record re_lib =
  found :: "pattern \<Rightarrow> ustr \<Rightarrow> bool"
  search_room :: "ustr \<Rightarrow> (ustr \<times> ustr) option"

subsection \<open>\<open>is_event_text\<close>\<close>

text \<open>
  \<^verbatim>\<open>
  text_lower = text.lower()
  event_score = sum(1 for keyword in self.event_keywords if keyword in text_lower)
  has_date = any(re.search(pattern, text, re.IGNORECASE) for pattern in self.date_patterns)
  has_time = any(re.search(pattern, text, re.IGNORECASE) for pattern in self.time_patterns)
  has_location = any(re.search(pattern, text, re.IGNORECASE) for pattern in self.location_patterns)
  has_keywords = event_score > 0
  elements_found = sum([has_date, has_time, has_location])
  return (has_keywords and elements_found >= 1) or (event_score >= 2)
  \<close>
\<close>

definition event_score :: "builtins \<Rightarrow> ustr \<Rightarrow> nat" where
  "event_score B text =
     length (filter (\<lambda>keyword. contains (str_lower B text) keyword) event_keywords)"

definition has_date :: "re_lib \<Rightarrow> ustr \<Rightarrow> bool" where
  "has_date R text = list_ex (\<lambda>p. found R p text) date_patterns"

definition has_time :: "re_lib \<Rightarrow> ustr \<Rightarrow> bool" where
  "has_time R text = list_ex (\<lambda>p. found R p text) time_patterns"

definition has_location :: "re_lib \<Rightarrow> ustr \<Rightarrow> bool" where
  "has_location R text = list_ex (\<lambda>p. found R p text) location_patterns"

definition elements_found :: "re_lib \<Rightarrow> ustr \<Rightarrow> nat" where
  \<comment> \<open>\<open>sum([has_date, has_time, has_location])\<close>\<close>
  "elements_found R text =
     (if has_date R text then 1 else 0) + (if has_time R text then 1 else 0)
       + (if has_location R text then 1 else 0)"

definition is_event_text :: "builtins \<Rightarrow> re_lib \<Rightarrow> ustr \<Rightarrow> bool" where
  "is_event_text B R text \<longleftrightarrow>
     (event_score B text > 0 \<and> elements_found R text \<ge> 1) \<or> event_score B text \<ge> 2"

subsection \<open>\<open>extract_date\<close>\<close>

definition int_of_digits :: "builtins \<Rightarrow> ustr \<Rightarrow> int" where
  \<comment> \<open>\<open>int(g)\<close> of a group that \<open>\d\<close> matched: it never raises\<close>
  "int_of_digits B ds = foldl (\<lambda>a c. 10 * a + decimal_value B c) 0 ds"

text \<open>
  The chain of attempts of \<open>extract_date\<close>, last first. \<open>now\<close> is the date of
  \<open>datetime.now(self.moscow_tz)\<close>; one call reads the clock at most twice, and the model
  gives both readings the same date. A date that \<open>datetime(...)\<close> refuses (\<open>ValueError\<close>)
  passes on to the next attempt. In the last attempt \<open>year = year if year else str(now.year)\<close>,
  and \<open>int\<close> of that string is the year itself; the second group is one of the twelve names
  of the pattern, which are the keys of \<open>month_names\<close>.
\<close>

definition date_from_words :: "builtins \<Rightarrow> date \<Rightarrow> ustr \<Rightarrow> ustr \<times> real" where
  "date_from_words B now text_lower =
     (case re_search (word_char B) (date_words_rx B) text_lower of
        None \<Rightarrow> (ne_ukazana, 0.0)
      | Some m \<Rightarrow>
          (let day = grp m 1;
               month = map_of month_names (grp m 2);
               given = (case group_opt m 3 of Some y \<Rightarrow> y \<noteq> [] | None \<Rightarrow> False);
               year = (if given then grp m 3 else str_of_int (d_year now));
               year_number = (if given then int_of_digits B (grp m 3) else d_year now)
           in case month of
                Some month_number \<Rightarrow>
                  if valid_date year_number month_number (int_of_digits B day)
                  then (zfill 2 day @ asc ''.'' @ zfill 2 (str_of_int month_number) @ asc ''.''
                          @ year, 0.90)
                  else (ne_ukazana, 0.0)
              | None \<Rightarrow> (ne_ukazana, 0.0)))"

definition date_from_short :: "builtins \<Rightarrow> date \<Rightarrow> ustr \<Rightarrow> ustr \<times> real" where
  "date_from_short B now text =
     (case re_search (word_char B) (date_short_rx B) text of
        None \<Rightarrow> date_from_words B now (str_lower B text)
      | Some m \<Rightarrow>
          (let day = grp m 1; month = grp m 2; year = d_year now
           in if valid_date year (int_of_digits B month) (int_of_digits B day)
              then (zfill 2 day @ asc ''.'' @ zfill 2 month @ asc ''.'' @ str_of_int year, 0.85)
              else date_from_words B now (str_lower B text)))"

definition date_from_full :: "builtins \<Rightarrow> date \<Rightarrow> ustr \<Rightarrow> ustr \<times> real" where
  "date_from_full B now text =
     (case re_search (word_char B) (date_full_rx B) text of
        None \<Rightarrow> date_from_short B now text
      | Some m \<Rightarrow>
          (let day = grp m 1; month = grp m 2; year = grp m 3
           in if valid_date (int_of_digits B year) (int_of_digits B month) (int_of_digits B day)
              then (zfill 2 day @ asc ''.'' @ zfill 2 month @ asc ''.'' @ year, 0.95)
              else date_from_short B now text))"

text \<open>
  \<^verbatim>\<open>
  text_lower = text.lower()
  if 'zavtra' in text_lower:
      tomorrow = datetime.now(self.moscow_tz) + timedelta(days=1)
      return tomorrow.strftime('%d.%m.%Y'), 0.95
  if 'segodnya' in text_lower:
      today = datetime.now(self.moscow_tz)
      return today.strftime('%d.%m.%Y'), 0.95
  if 'poslezavtra' in text_lower:
      day_after = datetime.now(self.moscow_tz) + timedelta(days=2)
      return day_after.strftime('%d.%m.%Y'), 0.95
  ...
  return "Ne ukazana", 0.0
  \<close>
\<close>

definition extract_date :: "builtins \<Rightarrow> date \<Rightarrow> ustr \<Rightarrow> ustr \<times> real" where
  "extract_date B now text =
     (let text_lower = str_lower B text
      in if contains text_lower zavtra then (strftime_dmy (add_days 1 now), 0.95)
         else if contains text_lower segodnya then (strftime_dmy now, 0.95)
         else if contains text_lower poslezavtra then (strftime_dmy (add_days 2 now), 0.95)
         else date_from_full B now text)"

subsection \<open>\<open>extract_time\<close>\<close>

text \<open>
  \<^verbatim>\<open>
  match = re.search(r'(\d{1,2}):(\d{2})\s*-\s*(\d{1,2}):(\d{2})', text)
  if match:
      start_h, start_m, end_h, end_m = match.groups()
      return f"{start_h.zfill(2)}:{start_m} - {end_h.zfill(2)}:{end_m}", 0.95
  match = re.search(r'\b(\d{1,2}):(\d{2})\b', text)
  if match:
      hour, minute = match.groups()
      try:
          int(hour), int(minute)
          return f"{hour.zfill(2)}:{minute}", 0.90
      except ValueError:
          pass
  for word, time_val in time_words.items():
      if word in text_lower:
          return time_val, 0.70
  return "Ne ukazano", 0.0
  \<close>
  \<open>int\<close> of a group of decimal digits never raises, so the \<open>try\<close> always returns.
\<close>

definition extract_time :: "builtins \<Rightarrow> ustr \<Rightarrow> ustr \<times> real" where
  "extract_time B text =
     (let text_lower = str_lower B text
      in case re_search (word_char B) (time_range_rx B) text of
           Some m \<Rightarrow>
             (zfill 2 (grp m 1) @ asc '':'' @ grp m 2 @ asc '' - '' @ zfill 2 (grp m 3) @ asc '':''
                @ grp m 4, 0.95)
         | None \<Rightarrow>
        (case re_search (word_char B) (time_single_rx B) text of
           Some m \<Rightarrow> (zfill 2 (grp m 1) @ asc '':'' @ grp m 2, 0.90)
         | None \<Rightarrow>
        (case find (\<lambda>(word, time_val). contains text_lower word) time_words of
           Some (word, time_val) \<Rightarrow> (time_val, 0.70)
         | None \<Rightarrow> (ne_ukazano, 0.0))))"

subsection \<open>\<open>extract_location\<close>\<close>

text \<open>
  \<^verbatim>\<open>
  for platform in online_platforms:
      if platform in text_lower:
          return f"Onlajn ({platform.upper()})", 0.95
  if 'onlajn' in text_lower or 'translyaciya' in text_lower or 'vebinar' in text_lower:
      return "Onlajn", 0.90
  match = re.search(pattern, text, re.IGNORECASE)
  if match:
      location_type, location_num = match.groups()
      location_num = location_num.strip()
      return f"{location_type.capitalize()} {location_num}", 0.90
  for keyword, location_name in locations_keywords.items():
      if keyword in text_lower:
          return location_name, 0.85
  if 'mospoliteh' in text_lower or 'politeh' in text_lower:
      return 'Moskovskij Politeh', 0.70
  return "Ne ukazano", 0.0
  \<close>
\<close>

definition extract_location :: "builtins \<Rightarrow> re_lib \<Rightarrow> ustr \<Rightarrow> ustr \<times> real" where
  "extract_location B R text =
     (let text_lower = str_lower B text
      in case find (\<lambda>platform. contains text_lower platform) online_platforms of
           Some platform \<Rightarrow> (Onlajn @ asc '' ('' @ ascii_upper platform @ asc '')'', 0.95)
         | None \<Rightarrow>
        if contains text_lower onlajn \<or> contains text_lower translyaciya
             \<or> contains text_lower vebinar
        then (Onlajn, 0.90)
        else
        (case search_room R text of
           Some (location_type, location_num) \<Rightarrow>
             (str_capitalize B location_type @ asc '' '' @ strip location_num, 0.90)
         | None \<Rightarrow>
        (case find (\<lambda>(keyword, location_name). contains text_lower keyword) locations_keywords of
           Some (keyword, location_name) \<Rightarrow> (location_name, 0.85)
         | None \<Rightarrow>
        if contains text_lower mospoliteh \<or> contains text_lower politeh
        then (Moskovskij_Politeh, 0.70)
        else (ne_ukazano, 0.0))))"

subsection \<open>\<open>extract_category\<close>\<close>

text \<open>
  \<^verbatim>\<open>
  scores = {}
  for category, keywords in self.category_keywords.items():
      score = sum(1 for keyword in keywords if keyword in text_lower)
      if score > 0:
          scores[category] = score
  if scores:
      return max(scores, key=scores.get)
  return 'student_life'
  \<close>
  \<open>max\<close> gives the first of the categories with the greatest score.
\<close>

definition category_scores :: "builtins \<Rightarrow> ustr \<Rightarrow> (string \<times> nat) list" where
  "category_scores B text =
     filter (\<lambda>(category, score). score > 0)
       (map (\<lambda>(category, keywords).
               (category, length (filter (\<lambda>keyword. contains (str_lower B text) keyword) keywords)))
            category_keywords)"

definition extract_category :: "builtins \<Rightarrow> ustr \<Rightarrow> string" where
  "extract_category B text =
     (case category_scores B text of
        [] \<Rightarrow> ''student_life''
      | first # others \<Rightarrow>
          fst (foldl (\<lambda>best current. if snd current > snd best then current else best)
                 first others))"

section \<open>RefinementStage: \<open>_get_llm\<close> and \<open>_refine_with_llm\<close>\<close>

text \<open>
  The state of a \<open>RussianEventExtractor\<close>: \<open>use_llm\<close>, \<open>_llm\<close>, \<open>_llm_loaded\<close> and
  \<open>_llm_error\<close>. \<open>load_calls\<close> is not a field of the source: it counts the calls of
  \<open>HuggingFaceHandler.load_model\<close>, so that theorems can speak of them.
\<close>

datatype handler = Handler

record extractor =
  use_llm :: bool
  llm :: "handler option"
  llm_loaded :: bool
  llm_error :: bool
  load_calls :: nat

definition new_extractor :: "bool \<Rightarrow> extractor" where
  \<comment> \<open>\<open>__init__\<close>\<close>
  "new_extractor use =
     \<lparr>use_llm = use, llm = None, llm_loaded = False, llm_error = False, load_calls = 0\<rparr>"

text \<open>
  \<^verbatim>\<open>
  if self._llm_error:
      return None
  if self._llm_loaded and self._llm is not None:
      return self._llm
  if not self._llm_loaded:
      try:
          self._llm = HuggingFaceHandler()
          self._llm.load_model()
          self._llm_loaded = True
          return self._llm
      except Exception as e:
          self._llm_error = True
          self.use_llm = False
          return None
  return self._llm
  \<close>
  \<open>load_ok\<close> tells whether \<open>load_model\<close>, if it is called now, returns (or raises).
\<close>

definition get_llm :: "bool \<Rightarrow> extractor \<Rightarrow> handler option \<times> extractor" where
  "get_llm load_ok X =
     (if llm_error X then (None, X)
      else if llm_loaded X \<and> llm X \<noteq> None then (llm X, X)
      else if \<not> llm_loaded X then
        (if load_ok
         then (Some Handler,
               X\<lparr>llm := Some Handler, llm_loaded := True, load_calls := load_calls X + 1\<rparr>)
         else (None,
               X\<lparr>llm := Some Handler, llm_error := True, use_llm := False,
                 load_calls := load_calls X + 1\<rparr>))
      else (llm X, X))"

text \<open>JSON values, as \<open>json.loads\<close> gives them; a number is kept as its literal.\<close>

datatype json =
    JNull
  | JBool bool
  | JNumber ustr
  | JString ustr
  | JArray "json list"
  | JObject "(ustr \<times> json) list"

text \<open>
  An \<open>EventData\<close>. The fields a refinement fills hold whatever value the model's JSON gave
  for the key, so they are JSON values; the heuristic record holds strings.
\<close>

record event_data =
  ev_title :: json
  ev_date :: json
  ev_time :: json
  ev_location :: json
  ev_description :: json
  ev_category :: string
  ev_telegram_url :: ustr
  ev_confidence :: real

text \<open>
  The pattern of the JSON object in the model's response:
  \<^verbatim>\<open>\{[^{}]*(?:\{[^{}]*\}[^{}]*)*\}\<close>
\<close>

definition nbp :: "nat \<Rightarrow> bool" where
  \<comment> \<open>a character that is not a brace\<close>
  "nbp c \<longleftrightarrow> c \<noteq> of_char CHR ''{'' \<and> c \<noteq> of_char CHR ''}''"

definition not_brace :: rx where
  \<comment> \<open>\<open>[^{}]\<close>\<close>
  "not_brace = Sym nbp"

definition json_object_rx :: rx where
  "json_object_rx =
     seqs [lit CHR ''{'', Star not_brace,
           Star (seqs [lit CHR ''{'', Star not_brace, lit CHR ''}'', Star not_brace]),
           lit CHR ''}'']"

definition extract_json :: "ustr \<Rightarrow> ustr option" where
  \<comment> \<open>\<open>re.search(..., response, re.DOTALL)\<close> and \<open>json_match.group()\<close>; the pattern has no
     \<open>\b\<close>, so the word characters do not matter\<close>
  "extract_json response = map_option fst (re_search (\<lambda>_. False) json_object_rx response)"










definition dict_get :: "(ustr \<times> json) list \<Rightarrow> ustr \<Rightarrow> json \<Rightarrow> json" where
  \<comment> \<open>\<open>data.get(key, default)\<close>\<close>
  "dict_get data key dflt = (case map_of data key of Some v \<Rightarrow> v | None \<Rightarrow> dflt)"

definition slice_150 :: "json \<Rightarrow> json option" where
  \<comment> \<open>\<open>v[:150]\<close>; \<open>None\<close> is the \<open>TypeError\<close> of a value that cannot be sliced\<close>
  "slice_150 v =
     (case v of
        JString s \<Rightarrow> Some (JString (take 150 s))
      | JArray xs \<Rightarrow> Some (JArray (take 150 xs))
      | _ \<Rightarrow> None)"

text \<open>What the model does when asked: \<open>generate_response\<close> raises, or returns a text or \<open>None\<close>.\<close>

datatype generation = GenRaises | GenReturns "ustr option"

text \<open>
  What one call of \<open>extract_event_info\<close> meets outside the program: the outcome of a
  model load and of a generation, should they be asked for, and the date.
\<close>

record call_env =
  load_ok :: bool
  generated :: generation
  today :: date

text \<open>
  The regex draft handed to the refinement: title, date, time, location, category.
\<close>

record draft =
  dr_title :: ustr
  dr_date :: ustr
  dr_time :: ustr
  dr_location :: ustr
  dr_category :: string

text \<open>
  \<^verbatim>\<open>
  llm = self._get_llm()
  if not llm:
      return None
  prompt = ...
  try:
      response = llm.generate_response(prompt, max_length=1000, temperature=0.3)
      if not response:
          return None
      json_match = re.search(r'\{[^{}]*(?:\{[^{}]*\}[^{}]*)*\}', response, re.DOTALL)
      if not json_match:
          return None
      data = json.loads(json_match.group())
      return EventData(
          title=data.get('title', extracted_info['title'])[:150],
          date=data.get('date', extracted_info['date']),
          time=data.get('time', extracted_info['time']),
          location=data.get('location', extracted_info['location']),
          description=data.get('description', text[:500]),
          category=extracted_info['category'],
          telegram_url='',
          confidence=0.85
      )
  except Exception as e:
      return None
  \<close>
  \<open>json_loads\<close> is \<open>json.loads\<close>, with \<open>None\<close> for its exception. A value that is not an
  object has no \<open>get\<close>; that exception too ends in \<open>return None\<close>.
\<close>

definition refined_event :: "ustr \<Rightarrow> draft \<Rightarrow> json \<Rightarrow> event_data option" where
  "refined_event text extracted_info data =
     (case data of
        JObject d \<Rightarrow>
          (case slice_150 (dict_get d (asc ''title'') (JString (dr_title extracted_info))) of
             None \<Rightarrow> None
           | Some title \<Rightarrow>
               Some \<lparr>ev_title = title,
                     ev_date = dict_get d (asc ''date'') (JString (dr_date extracted_info)),
                     ev_time = dict_get d (asc ''time'') (JString (dr_time extracted_info)),
                     ev_location =
                       dict_get d (asc ''location'') (JString (dr_location extracted_info)),
                     ev_description = dict_get d (asc ''description'') (JString (take 500 text)),
                     ev_category = dr_category extracted_info,
                     ev_telegram_url = [],
                     ev_confidence = 0.85\<rparr>)
      | _ \<Rightarrow> None)"

definition refine_response :: "(ustr \<Rightarrow> json option) \<Rightarrow> ustr \<Rightarrow> draft \<Rightarrow> generation \<Rightarrow> event_data option" where
  \<comment> \<open>the \<open>try\<close> block\<close>
  "refine_response json_loads text extracted_info g =
     (case g of
        GenRaises \<Rightarrow> None
      | GenReturns None \<Rightarrow> None
      | GenReturns (Some response) \<Rightarrow>
          if response = [] then None
          else (case extract_json response of
                  None \<Rightarrow> None
                | Some json_text \<Rightarrow>
                    (case json_loads json_text of
                       None \<Rightarrow> None
                     | Some data \<Rightarrow> refined_event text extracted_info data)))"

definition refine_with_llm :: "(ustr \<Rightarrow> json option) \<Rightarrow> call_env \<Rightarrow> extractor \<Rightarrow> ustr \<Rightarrow> draft
    \<Rightarrow> event_data option \<times> extractor" where
  "refine_with_llm json_loads env X text extracted_info =
     (case get_llm (load_ok env) X of
        (None, X') \<Rightarrow> (None, X')
      | (Some h, X') \<Rightarrow> (refine_response json_loads text extracted_info (generated env), X'))"

text \<open>A sequence of refinement calls, each with what it meets, on one extractor.\<close>

fun refine_many :: "(ustr \<Rightarrow> json option) \<Rightarrow> (call_env \<times> ustr \<times> draft) list \<Rightarrow> extractor
    \<Rightarrow> event_data option list \<times> extractor" where
  "refine_many J [] X = ([], X)"
| "refine_many J ((env, text, extracted_info) # calls) X =
     (let (result, X') = refine_with_llm J env X text extracted_info;
          (results, X'') = refine_many J calls X'
      in (result # results, X''))"

section \<open>\<open>extract_event_info\<close> and \<open>process_batch\<close>\<close>

text \<open>
  \<^verbatim>\<open>
  if not self.is_event_text(text):
      return None
  date, date_conf = self.extract_date(text)
  time, time_conf = self.extract_time(text)
  location, location_conf = self.extract_location(text)
  category = self.extract_category(text)
  title = self.extract_title(text)
  confidence = (date_conf + time_conf + location_conf) / 3
  if self.use_llm:
      try:
          event_data = self._refine_with_llm(text, {...})
          if event_data:
              return event_data
      except Exception as e:
          ...
  description = text[:500] if len(text) > 500 else text
  return EventData(title=title, date=date, time=time, location=location,
                   description=description, category=category,
                   telegram_url=telegram_url, confidence=min(confidence, 1.0))
  \<close>
\<close>

definition heuristic_confidence :: "builtins \<Rightarrow> re_lib \<Rightarrow> date \<Rightarrow> ustr \<Rightarrow> real" where
  "heuristic_confidence B R now text =
     (snd (extract_date B now text) + snd (extract_time B text) + snd (extract_location B R text))
       / 3"

definition regex_draft :: "builtins \<Rightarrow> re_lib \<Rightarrow> date \<Rightarrow> ustr \<Rightarrow> draft" where
  "regex_draft B R now text =
     \<lparr>dr_title = extract_title text,
      dr_date = fst (extract_date B now text),
      dr_time = fst (extract_time B text),
      dr_location = fst (extract_location B R text),
      dr_category = extract_category B text\<rparr>"

definition heuristic_event :: "builtins \<Rightarrow> re_lib \<Rightarrow> date \<Rightarrow> ustr \<Rightarrow> ustr \<Rightarrow> event_data" where
  "heuristic_event B R now text telegram_url =
     \<lparr>ev_title = JString (extract_title text),
      ev_date = JString (fst (extract_date B now text)),
      ev_time = JString (fst (extract_time B text)),
      ev_location = JString (fst (extract_location B R text)),
      ev_description = JString (if length text > 500 then take 500 text else text),
      ev_category = extract_category B text,
      ev_telegram_url = telegram_url,
      ev_confidence = min (heuristic_confidence B R now text) 1.0\<rparr>"

definition extract_event_info :: "builtins \<Rightarrow> re_lib \<Rightarrow> (ustr \<Rightarrow> json option) \<Rightarrow> call_env \<Rightarrow> extractor
    \<Rightarrow> ustr \<Rightarrow> ustr \<Rightarrow> event_data option \<times> extractor" where
  "extract_event_info B R json_loads env X text telegram_url =
     (if \<not> is_event_text B R text then (None, X)
      else if use_llm X then
        (case refine_with_llm json_loads env X text (regex_draft B R (today env) text) of
           (Some event, X') \<Rightarrow> (Some event, X')
         | (None, X') \<Rightarrow> (Some (heuristic_event B R (today env) text telegram_url), X'))
      else (Some (heuristic_event B R (today env) text telegram_url), X))"

text \<open>
  \<open>process_batch\<close>. The environment gives the outcome of the load that the batch itself may
  ask for, and a \<open>call_env\<close> for the text at each index. Without the model every text goes
  through \<open>extract_event_info\<close>:
  \<^verbatim>\<open>
  if not self.use_llm:
      for text, url in texts:
          results.append(self.extract_event_info(text, url))
      return results
  \<close>
\<close>

fun extract_each :: "builtins \<Rightarrow> re_lib \<Rightarrow> (ustr \<Rightarrow> json option) \<Rightarrow> (nat \<Rightarrow> call_env) \<Rightarrow> nat
    \<Rightarrow> (ustr \<times> ustr) list \<Rightarrow> extractor \<Rightarrow> event_data option list \<times> extractor" where
  "extract_each B R J envs i [] X = ([], X)"
| "extract_each B R J envs i ((text, url) # texts) X =
     (let (result, X') = extract_event_info B R J (envs i) X text url;
          (results, X'') = extract_each B R J envs (Suc i) texts X'
      in (result # results, X''))"

text \<open>
  With the model, the event-like texts are extracted in order and kept by their URL:
  \<^verbatim>\<open>
  for text, url in batch:
      try:
          event_data = self.extract_event_info(text, url)
          batch_results[url] = event_data
      except Exception as e:
          batch_results[url] = None
  \<close>
\<close>

fun extract_events :: "builtins \<Rightarrow> re_lib \<Rightarrow> (ustr \<Rightarrow> json option) \<Rightarrow> (nat \<Rightarrow> call_env) \<Rightarrow> nat
    \<Rightarrow> (ustr \<times> ustr) list \<Rightarrow> (ustr \<rightharpoonup> event_data option) \<Rightarrow> extractor
    \<Rightarrow> (ustr \<rightharpoonup> event_data option) \<times> extractor" where
  "extract_events B R J envs i [] batch_results X = (batch_results, X)"
| "extract_events B R J envs i ((text, url) # texts) batch_results X =
     (if is_event_text B R text
      then (let (event_data, X') = extract_event_info B R J (envs i) X text url
            in extract_events B R J envs (Suc i) texts (batch_results(url \<mapsto> event_data)) X')
      else extract_events B R J envs (Suc i) texts batch_results X)"

text \<open>
  \<^verbatim>\<open>
  for i, (text, url) in enumerate(texts):
      if self.is_event_text(text):
          event_texts.append((text, url))
      else:
          results.append(None)
  if not event_texts:
      return results
  llm = self._get_llm()
  ...
  final_results = [None] * len(texts)
  for i, (text, url) in enumerate(texts):
      if self.is_event_text(text):
          final_results[i] = batch_results.get(url)
  return final_results
  \<close>
\<close>

definition process_batch :: "builtins \<Rightarrow> re_lib \<Rightarrow> (ustr \<Rightarrow> json option) \<Rightarrow> bool \<Rightarrow> (nat \<Rightarrow> call_env)
    \<Rightarrow> extractor \<Rightarrow> (ustr \<times> ustr) list \<Rightarrow> event_data option list \<times> extractor" where
  "process_batch B R J batch_load_ok envs X texts =
     (if \<not> use_llm X then extract_each B R J envs 0 texts X
      else if \<not> list_ex (\<lambda>(text, url). is_event_text B R text) texts
      then (map (\<lambda>_. None) texts, X)
      else (let (handle, X1) = get_llm batch_load_ok X;
                (batch_results, X2) = extract_events B R J envs 0 texts Map.empty X1
            in (map (\<lambda>(text, url).
                       if is_event_text B R text
                       then (case batch_results url of Some r \<Rightarrow> r | None \<Rightarrow> None)
                       else None) texts,
                X2)))"

section \<open>ChannelCoordinator and FleetRunner\<close>

record channel_stats =
  total :: nat
  events :: nat
  skipped :: nat

text \<open>
  \<open>process_channel_messages\<close>, with the events it hands to \<open>_save_results\<close>; \<open>save_ok\<close> tells
  whether the files can be written. A failed write leaves the function as an exception.
  \<^verbatim>\<open>
  if not messages:
      return {'total': 0, 'events': 0, 'skipped': 0}
  messages.sort(key=lambda x: x.datetime)
  batch_data = [(msg.text, msg.url) for msg in messages]
  batch_results = self.extractor.process_batch(batch_data)
  for i, (msg, event_data) in enumerate(zip(messages, batch_results), 1):
      if event_data:
          event_data.telegram_url = msg.url
          events.append(event_data)
      else:
          skipped += 1
      all_messages.append(msg)
  await self._save_results(events, all_messages, channel_name)
  return {'total': len(messages), 'events': len(events), 'skipped': skipped}
  \<close>
\<close>

fun collect_events :: "(telegram_message \<times> event_data option) list \<Rightarrow> event_data list \<times> nat" where
  "collect_events [] = ([], 0)"
| "collect_events ((msg, None) # rest) =
     (let (events, skipped) = collect_events rest in (events, Suc skipped))"
| "collect_events ((msg, Some event_data) # rest) =
     (let (events, skipped) = collect_events rest
      in (event_data\<lparr>ev_telegram_url := msg_url msg\<rparr> # events, skipped))"

definition process_channel_messages :: "builtins \<Rightarrow> re_lib \<Rightarrow> (ustr \<Rightarrow> json option) \<Rightarrow> bool \<Rightarrow> (nat \<Rightarrow> call_env)
    \<Rightarrow> bool \<Rightarrow> extractor \<Rightarrow> telegram_message list
    \<Rightarrow> (channel_stats \<times> event_data list) py \<times> extractor" where
  "process_channel_messages B R J batch_load_ok envs save_ok X messages =
     (if messages = [] then (Returned (\<lparr>total = 0, events = 0, skipped = 0\<rparr>, []), X)
      else (let sorted = sort_key msg_datetime messages;
                (batch_results, X') =
                   process_batch B R J batch_load_ok envs X
                     (map (\<lambda>msg. (msg_text msg, msg_url msg)) sorted);
                (found_events, skipped_count) = collect_events (zip sorted batch_results)
            in if save_ok
               then (Returned (\<lparr>total = length messages, events = length found_events,
                                skipped = skipped_count\<rparr>, found_events), X')
               else (Raised, X')))"

text \<open>
  What one channel meets outside the program: the network, the clock, and what its batch
  meets.
\<close>

record channel_env =
  network :: "nat \<Rightarrow> get_outcome"
  clock :: int
  batch_load :: bool
  calls :: "nat \<Rightarrow> call_env"
  can_save :: bool

text \<open>
  The task of one channel, \<open>parse_and_process_channel\<close>, with the state of the parser (the
  hashes seen and the extractor) passed through:
  \<^verbatim>\<open>
  try:
      messages = await self.parse_channel(channel)
      if not messages:
          logger.warning(... channel empty or unavailable ...)
          return channel, None
      stats = await self.process_channel_messages(messages, channel)
      return channel, stats
  except Exception as e:
      return channel, None
  \<close>
\<close>

record parser_config =
  fetching :: fetch_config
  days_back :: int

definition parse_and_process_channel :: "builtins \<Rightarrow> re_lib \<Rightarrow> (ustr \<Rightarrow> json option) \<Rightarrow> page_lib
    \<Rightarrow> parser_config \<Rightarrow> channel_env \<Rightarrow> ustr \<Rightarrow> ustr set \<times> extractor
    \<Rightarrow> (ustr \<times> channel_stats option) \<times> (ustr set \<times> extractor)" where
  "parse_and_process_channel B R J L cfg env channel state =
     (case parse_channel B L (fetching cfg) (network env) (clock env) (days_back cfg) channel
             (fst state) of
        (Raised, seen') \<Rightarrow> ((channel, None), (seen', snd state))
      | (Returned messages, seen') \<Rightarrow>
          if messages = [] then ((channel, None), (seen', snd state))
          else (case process_channel_messages B R J (batch_load env) (calls env) (can_save env)
                       (snd state) messages of
                  (Raised, X') \<Rightarrow> ((channel, None), (seen', X'))
                | (Returned (stats, saved), X') \<Rightarrow> ((channel, Some stats), (seen', X'))))"

text \<open>
  The results of \<open>asyncio.gather(*tasks, return_exceptions=True)\<close>, one for each channel in
  the order of the channels, and the loop that counts them:
  \<^verbatim>\<open>
  for result in results:
      if isinstance(result, Exception):
          statistics['failed'] += 1
          continue
      channel, stats = result
      if stats is not None:
          statistics['processed'] += 1
          statistics['total_messages'] += stats['total']
          statistics['total_events'] += stats['events']
          statistics['channels_stats'][channel] = stats
      else:
          statistics['failed'] += 1
  \<close>
\<close>

datatype task_result = TaskException | TaskReturned ustr "channel_stats option"

record statistics =
  total_channels :: nat
  processed :: nat
  failed :: nat
  total_messages :: nat
  total_events :: nat
  channels_stats :: "ustr \<rightharpoonup> channel_stats"

fun count_results :: "task_result list \<Rightarrow> statistics \<Rightarrow> statistics" where
  "count_results [] S = S"
| "count_results (TaskException # results) S = count_results results (S\<lparr>failed := failed S + 1\<rparr>)"
| "count_results (TaskReturned channel None # results) S =
     count_results results (S\<lparr>failed := failed S + 1\<rparr>)"
| "count_results (TaskReturned channel (Some stats) # results) S =
     count_results results
       (S\<lparr>processed := processed S + 1,
          total_messages := total_messages S + total stats,
          total_events := total_events S + events stats,
          channels_stats := (channels_stats S)(channel \<mapsto> stats)\<rparr>)"

text \<open>The results that the counting loop puts under \<open>failed\<close>.\<close>

fun is_failure :: "task_result \<Rightarrow> bool" where
  "is_failure TaskException = True"
| "is_failure (TaskReturned channel None) = True"
| "is_failure (TaskReturned channel (Some stats)) = False"

definition initial_statistics :: "nat \<Rightarrow> statistics" where
  "initial_statistics n =
     \<lparr>total_channels = n, processed = 0, failed = 0, total_messages = 0, total_events = 0,
      channels_stats = Map.empty\<rparr>"

text \<open>
  The tasks of a run, one channel after another: one of the orders in which the event loop
  may run them. Each channel comes with what it meets outside the program.
\<close>

fun run_tasks :: "builtins \<Rightarrow> re_lib \<Rightarrow> (ustr \<Rightarrow> json option) \<Rightarrow> page_lib \<Rightarrow> parser_config
    \<Rightarrow> (ustr \<times> channel_env) list \<Rightarrow> ustr set \<times> extractor
    \<Rightarrow> task_result list \<times> (ustr set \<times> extractor)" where
  "run_tasks B R J L cfg [] state = ([], state)"
| "run_tasks B R J L cfg ((channel, env) # channels) state =
     (let ((name, stats), state') = parse_and_process_channel B R J L cfg env channel state;
          (results, state'') = run_tasks B R J L cfg channels state'
      in (TaskReturned name stats # results, state''))"

definition parse_and_process :: "builtins \<Rightarrow> re_lib \<Rightarrow> (ustr \<Rightarrow> json option) \<Rightarrow> page_lib \<Rightarrow> parser_config
    \<Rightarrow> (ustr \<times> channel_env) list \<Rightarrow> ustr set \<times> extractor
    \<Rightarrow> statistics \<times> (ustr set \<times> extractor)" where
  "parse_and_process B R J L cfg channels state =
     (let (results, state') = run_tasks B R J L cfg channels state
      in (count_results results (initial_statistics (length channels)), state'))"

section \<open>Concrete inputs\<close>

text \<open>
  Python's tables on the Basic Latin block and on the Cyrillic block, for running the
  model on texts written in Russian and ASCII: the capital letters \<open>A\<close> to \<open>Z\<close> and
  U+0410 to U+042F have their small letters 32 places on, U+0400 to U+040F have theirs 80
  places on; the decimal digits are \<open>0\<close> to \<open>9\<close>.
\<close>

definition lower_char :: "nat \<Rightarrow> nat" where
  "lower_char c =
     (if (65 \<le> c \<and> c \<le> 90) \<or> (1040 \<le> c \<and> c \<le> 1071) then c + 32
      else if 1024 \<le> c \<and> c \<le> 1039 then c + 80 else c)"

definition upper_char :: "nat \<Rightarrow> nat" where
  "upper_char c =
     (if (97 \<le> c \<and> c \<le> 122) \<or> (1072 \<le> c \<and> c \<le> 1103) then c - 32
      else if 1104 \<le> c \<and> c \<le> 1119 then c - 80 else c)"

definition basic_builtins :: builtins where
  "basic_builtins =
     \<lparr>str_lower = map lower_char,
      str_capitalize = (\<lambda>s. case s of [] \<Rightarrow> [] | c # cs \<Rightarrow> upper_char c # map lower_char cs),
      is_decimal = (\<lambda>c. 48 \<le> c \<and> c \<le> 57),
      is_alnum = (\<lambda>c. (48 \<le> c \<and> c \<le> 57) \<or> (65 \<le> c \<and> c \<le> 90) \<or> (97 \<le> c \<and> c \<le> 122)
                      \<or> (1024 \<le> c \<and> c \<le> 1153) \<or> (1162 \<le> c \<and> c \<le> 1279)),
      decimal_value = (\<lambda>c. int c - 48)\<rparr>"

definition christmas_eve :: date where
  \<comment> \<open>the day of the spec's example\<close>
  "christmas_eve = \<lparr>d_year = 2024, d_month = 12, d_day = 24\<rparr>"

definition vstrecha_v :: ustr where
  \<comment> \<open>\<open>'vstrecha v '\<close>, meeting at\<close>
  "vstrecha_v =
     [ru_ve, ru_es, ru_te, ru_er, ru_ie, ru_che, ru_a] @ asc '' '' @ [ru_ve] @ asc '' ''"

definition vstrecha_registraciya :: ustr where
  \<comment> \<open>\<open>'Vstrecha, registraciya'\<close>: two of the event keywords, the first capitalised\<close>
  "vstrecha_registraciya =
     [1042, ru_es, ru_te, ru_er, ru_ie, ru_che, ru_a] @ asc '', ''
       @ [ru_er, ru_ie, ru_ghe, ru_i, ru_es, ru_te, ru_er, ru_a, ru_tse, ru_i, ru_ya]"

definition vstrecha_segodnya :: ustr where
  \<comment> \<open>\<open>'Vstrecha segodnya v 18:30, registraciya onlajn'\<close>: meeting today at 18:30,
     registration online\<close>
  "vstrecha_segodnya =
     [1042, ru_es, ru_te, ru_er, ru_ie, ru_che, ru_a] @ asc '' '' @ segodnya @ asc '' ''
       @ [ru_ve] @ asc '' 18:30, ''
       @ [ru_er, ru_ie, ru_ghe, ru_i, ru_es, ru_te, ru_er, ru_a, ru_tse, ru_i, ru_ya] @ asc '' ''
       @ onlajn"

definition quiet_env :: call_env where
  \<comment> \<open>a call on the spec's example day, with a model that cannot be loaded\<close>
  "quiet_env = \<lparr>load_ok = False, generated = GenRaises, today = christmas_eve\<rparr>"

definition helpful_env :: call_env where
  \<comment> \<open>a call for which the model would load and would answer with an empty JSON object\<close>
  "helpful_env = \<lparr>load_ok = True, generated = GenReturns (Some (asc ''{}'')), today = christmas_eve\<rparr>"

text \<open>
  A page library for running the pager: the page has the given message blocks, every
  timestamp reads as the instant 0, and the digest of a text is the text itself.
\<close>

definition plain_page_lib :: "message_div list \<Rightarrow> page_lib" where
  "plain_page_lib divs =
     \<lparr>find_message_divs = (\<lambda>html. Some divs),
      fromisoformat = (\<lambda>stamp. Some 0),
      isoformat = (\<lambda>instant. asc ''1970-01-01T03:00:00+03:00''),
      md5_hexdigest = (\<lambda>content. Some content)\<rparr>"

definition no_patterns :: re_lib where
  \<comment> \<open>a matcher that finds nothing\<close>
  "no_patterns = \<lparr>found = (\<lambda>p text. False), search_room = (\<lambda>text. None)\<rparr>"

definition no_json :: "ustr \<Rightarrow> json option" where
  "no_json text = None"

definition default_parser_config :: parser_config where
  \<comment> \<open>\<open>PARSER_DAYS_BACK = 20\<close>\<close>
  "default_parser_config = \<lparr>fetching = config_defaults, days_back = 20\<rparr>"

definition down_env :: channel_env where
  \<comment> \<open>a channel that cannot be reached: every GET ends in a transport error\<close>
  "down_env =
     \<lparr>network = (\<lambda>attempt. RequestError), clock = 0, batch_load = False,
      calls = (\<lambda>i. quiet_env), can_save = True\<rparr>"

definition up_env :: channel_env where
  \<comment> \<open>a channel whose page is served at the first GET\<close>
  "up_env =
     \<lparr>network = (\<lambda>attempt. Response 200 (asc ''<html></html>'')), clock = 0,
      batch_load = False, calls = (\<lambda>i. quiet_env), can_save = True\<rparr>"

definition short_post :: message_div where
  \<comment> \<open>a block with everything but a text of 10 characters\<close>
  "short_post =
     \<lparr>time_datetime = Some (asc ''2024-12-24T06:00:00+00:00''), text_div = Some (asc '' Hi all ''),
      date_link = Some (Some (asc ''https://t.me/chan/1''))\<rparr>"

definition long_post :: message_div where
  "long_post =
     \<lparr>time_datetime = Some (asc ''2024-12-24T06:00:00+00:00''),
      text_div = Some (asc ''Open lecture in room 5''),
      date_link = Some (Some (asc ''https://t.me/chan/2''))\<rparr>"





section \<open>Properties of the page fetcher\<close>






lemma fetch_all_fail_defaults:
  "fetch_page config_defaults (\<lambda>_. RequestError) =
     (NoPage, [Get 0, Sleep 2, Get 1, Sleep 4, Get 2])"
  by (simp add: fetch_page_def config_defaults_def fetch_from.simps after_failure_def
      wait_time_def)




section \<open>Properties of the string operations\<close>

lemma split_on_nonempty: "split_on sep s \<noteq> []"
  by (induction s) (auto split: list.splits)

lemma split_on_first: "hd (split_on sep s) = takeWhile (\<lambda>c. c \<noteq> sep) s"
  using split_on_nonempty by (induction s) (auto split: list.splits)

section \<open>Properties of the title extractor\<close>

text \<open>
  C9, as the code has it. The title is the first line of the text (all that stands before
  the first line feed, be it empty or blank), stripped of the whitespace around it; a title
  longer than 100 characters is cut to its first 97 characters followed by \<open>...\<close>, so a
  title never exceeds 100 characters. \<open>split\<close> always gives a line, so the branch that
  joins the first 8 words is never taken.
\<close>

theorem extract_title_first_line:
  "extract_title t =
     (let title = strip (takeWhile (\<lambda>c. c \<noteq> newline) t)
      in if length title > 100 then take 97 title @ asc ''...'' else title) \<and>
   length (extract_title t) \<le> 100 \<and> split_on newline t \<noteq> []"
proof -
  obtain first rest where lines: "split_on newline t = first # rest"
    using split_on_nonempty[of newline t] by (cases "split_on newline t") auto
  then have first: "first = takeWhile (\<lambda>c. c \<noteq> newline) t"
    using split_on_first[of newline t] by simp
  show ?thesis
    using lines first by (auto simp: extract_title_def Let_def asc_def)
qed

theorem extract_title_first_line_witness:
  "extract_title (asc '' Open day '' @ [newline] @ asc ''Room 5'') = asc ''Open day''"
  using extract_title_first_line[of "asc '' Open day '' @ [newline] @ asc ''Room 5''"]
  by (simp add: asc_def strip_def is_space_def)

text \<open>
  C9 as the spec words it fails: of a text whose first line is empty the code gives the
  empty title, not the first non-empty line.
\<close>

theorem extract_title_counterexample:
  "extract_title (newline # asc ''Hello'') = [] \<and>
   first_nonempty_line (newline # asc ''Hello'') = Some (asc ''Hello'')"
  by (simp add: extract_title_def first_nonempty_line_def asc_def strip_def)

lemma starts_with_iff: "starts_with s p \<longleftrightarrow> (\<exists>ss. s = p @ ss)"
  by (induction s p rule: starts_with.induct) auto

lemma contains_iff: "contains hay needle \<longleftrightarrow> (\<exists>ps ss. hay = ps @ needle @ ss)"
proof (induction hay)
  case Nil
  then show ?case by auto
next
  case (Cons c hay)
  show ?case
  proof
    assume "contains (c # hay) needle"
    then consider "starts_with (c # hay) needle" | "contains hay needle" by auto
    then show "\<exists>ps ss. c # hay = ps @ needle @ ss"
    proof cases
      case 1
      then obtain ss where "c # hay = needle @ ss" using starts_with_iff by blast
      then have "c # hay = [] @ needle @ ss" by simp
      then show ?thesis by blast
    next
      case 2
      then obtain ps ss where "hay = ps @ needle @ ss" using Cons.IH by blast
      then have "c # hay = (c # ps) @ needle @ ss" by simp
      then show ?thesis by blast
    qed
  next
    assume "\<exists>ps ss. c # hay = ps @ needle @ ss"
    then obtain ps ss where eq: "c # hay = ps @ needle @ ss" by blast
    show "contains (c # hay) needle"
    proof (cases ps)
      case Nil
      then have "starts_with (c # hay) needle" using eq starts_with_iff by auto
      then show ?thesis by simp
    next
      case (Cons p ps')
      then have "hay = ps' @ needle @ ss" using eq by simp
      then have "contains hay needle" using Cons.IH by blast
      then show ?thesis by simp
    qed
  qed
qed

lemma contains_suffix_part: "contains hay (a @ b) \<Longrightarrow> contains hay b"
  unfolding contains_iff by (metis append.assoc)

lemmas basic_simps = basic_builtins_def lower_char_def upper_char_def asc_def

section \<open>Properties of the matcher\<close>

text \<open>
  A group that is not optional in its pattern is captured in every match, so \<open>grp\<close> always
  finds it; and the month that the date pattern captures is a key of \<open>month_names\<close>.
\<close>

lemma captures_kept:
  "st' \<in> set (run w r st) \<Longrightarrow> map_of (captures st) n \<noteq> None \<Longrightarrow> map_of (captures st') n \<noteq> None"
proof (induction w r st arbitrary: st' rule: run.induct)
  case (1 w p st)
  then show ?case by (auto simp: run.simps captures_def split: list.splits if_splits)
next
  case (2 w st)
  then show ?case by (simp add: run.simps)
next
  case (3 w a b st)
  from "3.prems"(1) obtain mid where mid: "mid \<in> set (run w a st)" "st' \<in> set (run w b mid)"
    by (auto simp: run.simps)
  from "3.IH"(1)[OF mid(1) "3.prems"(2)] have "map_of (captures mid) n \<noteq> None" .
  from "3.IH"(2)[OF mid(1) mid(2) this] show ?case .
next
  case (4 w a b st)
  from "4.prems"(1) have "st' \<in> set (run w a st) \<or> st' \<in> set (run w b st)"
    by (simp add: run.simps)
  then show ?case using "4.IH" "4.prems"(2) by blast
next
  case (5 w a st)
  from "5.prems"(1) consider "st' = st"
    | mid where "mid \<in> set (run w a st)" "length (remaining mid) < length (remaining st)"
        "st' \<in> set (run w (Star a) mid)"
    by (subst (asm) run.simps) (auto split: if_splits)
  then show ?case
  proof cases
    case 1
    then show ?thesis using "5.prems" by simp
  next
    case 2
    from "5.IH"(1)[OF 2(1) "5.prems"(2)] have "map_of (captures mid) n \<noteq> None" .
    from "5.IH"(2)[OF 2(1) 2(2) 2(3) this] show ?thesis .
  qed
next
  case (6 w k a st)
  then show ?case by (auto simp: run.simps captures_def)
next
  case (7 w st)
  then show ?case by (auto simp: run.simps split: if_splits)
next
  case (8 w a st)
  then show ?case by (auto simp: run.simps split: if_splits)
qed

lemma captures_present:
  "st' \<in> set (run w r st) \<Longrightarrow> always_captures n r \<Longrightarrow> map_of (captures st') n \<noteq> None"
proof (induction r arbitrary: st st')
  case (Seq a b)
  from Seq.prems(1) obtain mid where mid: "mid \<in> set (run w a st)" "st' \<in> set (run w b mid)"
    by (auto simp: run.simps)
  show ?case
  proof (cases "always_captures n a")
    case True
    from Seq.IH(1)[OF mid(1) True] captures_kept[OF mid(2)] show ?thesis by blast
  next
    case False
    then have "always_captures n b" using Seq.prems(2) by simp
    from Seq.IH(2)[OF mid(2) this] show ?thesis .
  qed
next
  case (Alt a b)
  from Alt.prems(1) have "st' \<in> set (run w a st) \<or> st' \<in> set (run w b st)"
    by (simp add: run.simps)
  moreover have "always_captures n a" "always_captures n b" using Alt.prems(2) by simp_all
  ultimately show ?case using Alt.IH(1)[of st' st] Alt.IH(2)[of st' st] by blast
next
  case (Group k a)
  from Group.prems(1) obtain mid where mid: "mid \<in> set (run w a st)"
    and st': "captures st' = (k, take (length (remaining st) - length (remaining mid)) (remaining st)) # captures mid"
    by (auto simp: run.simps captures_def)
  show ?case
  proof (cases "k = n")
    case True
    then show ?thesis using st' by simp
  next
    case False
    then have "always_captures n a" using Group.prems(2) by simp
    from Group.IH[OF mid this] show ?thesis using st' by simp
  qed
qed simp_all

lemma search_from_state:
  "search_from w r p s = Some m \<Longrightarrow> \<exists>p' s' st. st \<in> set (run w r (p', s', [])) \<and> snd m = captures st"
proof (induction s arbitrary: p)
  case Nil
  show ?case
  proof (cases "run w r (p, [], [])")
    case Nil
    then show ?thesis using Nil.prems by (subst (asm) search_from.simps) simp
  next
    case (Cons st sts)
    then have "snd m = captures st" using Nil.prems
      by (subst (asm) search_from.simps) auto
    moreover have "st \<in> set (run w r (p, [], []))" using Cons by simp
    ultimately show ?thesis by blast
  qed
next
  case (Cons c s)
  show ?case
  proof (cases "run w r (p, c # s, [])")
    case Nil
    then have "search_from w r (Some c) s = Some m"
      using Cons.prems by (subst (asm) search_from.simps) simp
    then show ?thesis by (rule Cons.IH)
  next
    case (Cons st sts)
    then have "snd m = captures st" using Cons.prems
      by (subst (asm) search_from.simps) auto
    moreover have "st \<in> set (run w r (p, c # s, []))" using Cons by simp
    ultimately show ?thesis by blast
  qed
qed

lemma group_present:
  "re_search w r s = Some m \<Longrightarrow> always_captures n r \<Longrightarrow> group_opt m n \<noteq> None"
  unfolding re_search_def group_opt_def
  using search_from_state captures_present by metis

lemma mandatory_groups:
  "always_captures 1 (date_full_rx B) \<and> always_captures 2 (date_full_rx B) \<and> always_captures 3 (date_full_rx B)"
  "always_captures 1 (date_short_rx B) \<and> always_captures 2 (date_short_rx B)"
  "always_captures 1 (date_words_rx B) \<and> always_captures 2 (date_words_rx B)"
  "always_captures 1 (time_range_rx B) \<and> always_captures 2 (time_range_rx B)
     \<and> always_captures 3 (time_range_rx B) \<and> always_captures 4 (time_range_rx B)"
  "always_captures 1 (time_single_rx B) \<and> always_captures 2 (time_single_rx B)"
  by (simp_all add: date_full_rx_def date_short_rx_def date_words_rx_def time_range_rx_def time_single_rx_def)


lemma captures_untouched:
  "st' \<in> set (run w r st) \<Longrightarrow> \<not> mentions n r \<Longrightarrow> map_of (captures st') n = map_of (captures st) n"
proof (induction w r st arbitrary: st' rule: run.induct)
  case (1 w p st)
  then show ?case by (auto simp: run.simps captures_def split: list.splits if_splits)
next
  case (2 w st)
  then show ?case by (simp add: run.simps)
next
  case (3 w a b st)
  from "3.prems"(1) obtain mid where mid: "mid \<in> set (run w a st)" "st' \<in> set (run w b mid)"
    by (auto simp: run.simps)
  have "\<not> mentions n a" "\<not> mentions n b" using "3.prems"(2) by simp_all
  from "3.IH"(1)[OF mid(1) this(1)] "3.IH"(2)[OF mid(1) mid(2) this(2)] show ?case by simp
next
  case (4 w a b st)
  from "4.prems"(1) have "st' \<in> set (run w a st) \<or> st' \<in> set (run w b st)"
    by (simp add: run.simps)
  moreover have "\<not> mentions n a" "\<not> mentions n b" using "4.prems"(2) by simp_all
  ultimately show ?case using "4.IH"(1)[of st'] "4.IH"(2)[of st'] by blast
next
  case (5 w a st)
  have na: "\<not> mentions n a" using "5.prems"(2) by simp
  from "5.prems"(1) consider "st' = st"
    | mid where "mid \<in> set (run w a st)" "length (remaining mid) < length (remaining st)"
        "st' \<in> set (run w (Star a) mid)"
    by (subst (asm) run.simps) (auto split: if_splits)
  then show ?case
  proof cases
    case 1
    then show ?thesis by simp
  next
    case 2
    from "5.IH"(1)[OF 2(1) na] "5.IH"(2)[OF 2(1) 2(2) 2(3) "5.prems"(2)] show ?thesis by simp
  qed
next
  case (6 w k a st)
  from "6.prems"(1) obtain mid where mid: "mid \<in> set (run w a st)"
    and st': "captures st' = (k, take (length (remaining st) - length (remaining mid)) (remaining st)) # captures mid"
    by (auto simp: run.simps captures_def)
  have "k \<noteq> n" "\<not> mentions n a" using "6.prems"(2) by simp_all
  from "6.IH"[OF mid this(2)] this(1) st' show ?case by simp
next
  case (7 w st)
  then show ?case by (auto simp: run.simps split: if_splits)
next
  case (8 w a st)
  then show ?case by (auto simp: run.simps split: if_splits)
qed

lemma run_word:
  "st' \<in> set (run w (word_rx word) st) \<Longrightarrow> remaining st = word @ remaining st'"
proof (induction word arbitrary: st)
  case Nil
  then show ?case by (simp add: word_rx_def run.simps)
next
  case (Cons c cs)
  show ?case
  proof (cases cs)
    case Nil
    then show ?thesis using Cons.prems
      by (auto simp: word_rx_def run.simps remaining_def split: list.splits if_splits)
  next
    case (Cons d ds)
    then have "word_rx (c # cs) = Seq (Sym (\<lambda>x. x = c)) (word_rx cs)"
      by (simp add: word_rx_def)
    then obtain mid where mid: "mid \<in> set (run w (Sym (\<lambda>x. x = c)) st)"
        "st' \<in> set (run w (word_rx cs) mid)"
      using Cons.prems by (auto simp: run.simps)
    from mid(1) have "remaining st = c # remaining mid"
      by (auto simp: run.simps remaining_def split: list.splits if_splits)
    then show ?thesis using Cons.IH[OF mid(2)] by simp
  qed
qed

lemma run_alts:
  "st' \<in> set (run w (alts rs) st) \<Longrightarrow> \<exists>r \<in> set rs. st' \<in> set (run w r st)"
  by (induction rs rule: alts.induct) (auto simp: run.simps split: list.splits)

lemma month_is_known:
  assumes "re_search w (date_words_rx B) s = Some m"
  shows "map_of month_names (grp m 2) \<noteq> None"
proof -
  let ?names = "alts (map (\<lambda>(name, number). word_rx name) month_names)"
  let ?year = "optional (seqs [plus space, Group 3 (seqs [digit B, digit B, digit B, digit B])])"
  have shape: "date_words_rx B =
      Seq (Group 1 (one_or_two (digit B))) (Seq (plus space) (Seq (Group 2 ?names) ?year))"
    by (simp add: date_words_rx_def)
  from assms obtain p' s' st where st: "st \<in> set (run w (date_words_rx B) (p', s', []))"
    and m: "snd m = captures st"
    unfolding re_search_def using search_from_state by blast
  from st obtain st2 st3 where st3: "st3 \<in> set (run w (Group 2 ?names) st2)"
    and last: "st \<in> set (run w ?year st3)"
    unfolding shape by (auto simp: run.simps(3))
  from st3 obtain mid where mid: "mid \<in> set (run w ?names st2)"
    and caps: "captures st3 =
      (2, take (length (remaining st2) - length (remaining mid)) (remaining st2)) # captures mid"
    by (auto simp: run.simps(6) captures_def)
  from run_alts[OF mid] obtain name number where known: "(name, number) \<in> set month_names"
    and word: "mid \<in> set (run w (word_rx name) st2)"
    by auto
  from run_word[OF word] have "take (length (remaining st2) - length (remaining mid)) (remaining st2) = name"
    by simp
  then have "map_of (captures st3) 2 = Some name" using caps by simp
  moreover have "\<not> mentions 2 ?year"
    by (simp add: optional_def plus_def space_def digit_def)
  ultimately have "map_of (captures st) 2 = Some name"
    using captures_untouched[OF last] by simp
  then have "grp m 2 = name" using m by (simp add: grp_def group_opt_def)
  moreover have "map_of month_names name \<noteq> None"
    using known by (metis map_of_eq_None_iff image_eqI fst_conv)
  ultimately show ?thesis by simp
qed

section \<open>Properties of the event classifier\<close>

lemma distinct_event_keywords: "distinct event_keywords"
  by (simp add: event_keywords_def)

text \<open>
  C3. The classifier says yes exactly when some event keyword occurs in the lowered text
  and a pattern of the date, time or place lists matches, or at least two keywords occur.
  The keywords of the list are distinct, so the score is the number of distinct keywords
  that occur. With no keyword at all the answer is no; with two or more it is yes, whatever
  the patterns find.
\<close>

theorem is_event_text_decision:
  "(is_event_text B R t \<longleftrightarrow>
      (0 < event_score B t \<and> (has_date R t \<or> has_time R t \<or> has_location R t))
        \<or> 2 \<le> event_score B t) \<and>
   event_score B t = card {k \<in> set event_keywords. contains (str_lower B t) k} \<and>
   (has_date R t \<longleftrightarrow> (\<exists>p \<in> set date_patterns. found R p t)) \<and>
   (has_time R t \<longleftrightarrow> (\<exists>p \<in> set time_patterns. found R p t)) \<and>
   (has_location R t \<longleftrightarrow> (\<exists>p \<in> set location_patterns. found R p t)) \<and>
   (event_score B t = 0 \<longrightarrow> \<not> is_event_text B R t) \<and>
   (2 \<le> event_score B t \<longrightarrow> is_event_text B R t)"
proof -
  have score: "event_score B t = card {k \<in> set event_keywords. contains (str_lower B t) k}"
    unfolding event_score_def
    using distinct_event_keywords by (metis distinct_card distinct_filter set_filter)
  have decision: "is_event_text B R t \<longleftrightarrow>
      (0 < event_score B t \<and> (has_date R t \<or> has_time R t \<or> has_location R t))
        \<or> 2 \<le> event_score B t"
    by (auto simp: is_event_text_def elements_found_def)
  have dates: "has_date R t \<longleftrightarrow> (\<exists>p \<in> set date_patterns. found R p t)"
    by (simp add: has_date_def list_ex_iff)
  have times: "has_time R t \<longleftrightarrow> (\<exists>p \<in> set time_patterns. found R p t)"
    by (simp add: has_time_def list_ex_iff)
  have places: "has_location R t \<longleftrightarrow> (\<exists>p \<in> set location_patterns. found R p t)"
    by (simp add: has_location_def list_ex_iff)
  have never: "event_score B t = 0 \<longrightarrow> \<not> is_event_text B R t"
    by (simp add: is_event_text_def)
  have always: "2 \<le> event_score B t \<longrightarrow> is_event_text B R t"
    by (simp add: is_event_text_def)
  from score decision dates times places never always show ?thesis
    by (intro conjI)
qed

theorem is_event_text_decision_witness:
  "\<forall>R. event_score basic_builtins vstrecha_registraciya = 2 \<and>
       is_event_text basic_builtins R vstrecha_registraciya \<and>
       event_score basic_builtins (asc ''hello'') = 0 \<and>
       \<not> is_event_text basic_builtins R (asc ''hello'')"
proof
  fix R
  have two: "event_score basic_builtins vstrecha_registraciya = 2"
    by (simp add: event_score_def vstrecha_registraciya_def event_keywords_def basic_simps)
  have none: "event_score basic_builtins (asc ''hello'') = 0"
    by (simp add: event_score_def event_keywords_def basic_simps)
  have yes: "is_event_text basic_builtins R vstrecha_registraciya"
    using is_event_text_decision[of basic_builtins R vstrecha_registraciya] two by linarith
  have no: "\<not> is_event_text basic_builtins R (asc ''hello'')"
    using is_event_text_decision[of basic_builtins R "asc ''hello''"] none by blast
  from two yes none no
  show "event_score basic_builtins vstrecha_registraciya = 2 \<and>
       is_event_text basic_builtins R vstrecha_registraciya \<and>
       event_score basic_builtins (asc ''hello'') = 0 \<and>
       \<not> is_event_text basic_builtins R (asc ''hello'')"
    by (intro conjI)
qed

section \<open>Properties of the date extractor\<close>

lemma poslezavtra_zavtra: "contains t poslezavtra \<Longrightarrow> contains t zavtra"
proof -
  have "poslezavtra = [ru_pe, ru_o, ru_es, ru_el, ru_ie] @ zavtra"
    by (simp add: poslezavtra_def zavtra_def)
  then show "contains t poslezavtra \<Longrightarrow> contains t zavtra"
    using contains_suffix_part by metis
qed

text \<open>
  C4 fails on the code for the day after tomorrow. The word for it ends in the word for
  tomorrow, and the test for tomorrow comes first: every text with the day after tomorrow
  in it gets tomorrow's date, the current date plus one day.
\<close>

theorem extract_date_poslezavtra_is_tomorrow:
  "contains (str_lower B t) poslezavtra \<Longrightarrow>
   extract_date B now t = (strftime_dmy (add_days 1 now), 0.95)"
  by (simp add: extract_date_def Let_def poslezavtra_zavtra)

theorem extract_date_poslezavtra_is_tomorrow_witness:
  "contains (str_lower basic_builtins poslezavtra) poslezavtra \<and>
   extract_date basic_builtins christmas_eve poslezavtra = (asc ''25.12.2024'', 0.95) \<and>
   strftime_dmy (add_days 2 christmas_eve) = asc ''26.12.2024''"
proof -
  have here: "contains (str_lower basic_builtins poslezavtra) poslezavtra"
    by (simp add: poslezavtra_def basic_simps)
  have tomorrow: "strftime_dmy (add_days 1 christmas_eve) = asc ''25.12.2024''"
    by (simp add: strftime_dmy_def christmas_eve_def next_day_def days_in_month_def zfill_def
        str_of_int_def asc_def)
  have day_after: "strftime_dmy (add_days 2 christmas_eve) = asc ''26.12.2024''"
    by (simp add: numeral_2_eq_2 strftime_dmy_def christmas_eve_def next_day_def
        days_in_month_def zfill_def str_of_int_def asc_def)
  from extract_date_poslezavtra_is_tomorrow[OF here, of christmas_eve] here tomorrow day_after
  show ?thesis by simp
qed

section \<open>Properties of the time extractor\<close>

lemmas rx_simps = re_search_def search_from.simps run.simps one_or_two_def plus_def
  optional_def digit_def lit_def space_def word_char_def remaining_def captures_def
  at_boundary_def grp_def group_opt_def

text \<open>
  C5 fails on the code: the hour and the minute of a single time are not checked against
  their ranges. The text \<open>'vstrecha v 99:99'\<close> gives the time \<open>99:99\<close> with confidence 0.90,
  though its hour reads 99.
\<close>

theorem extract_time_accepts_99_99:
  "extract_time basic_builtins (vstrecha_v @ asc ''99:99'') = (asc ''99:99'', 0.90) \<and>
   re_search (word_char basic_builtins) (time_range_rx basic_builtins)
     (vstrecha_v @ asc ''99:99'') = None \<and>
   int_of_digits basic_builtins (asc ''99'') = 99"
  by (simp add: extract_time_def vstrecha_v_def basic_simps rx_simps time_range_rx_def
      time_single_rx_def zfill_def is_space_def int_of_digits_def)

section \<open>Properties of the confidence\<close>

lemma date_from_words_conf:
  "date_from_words B now lowered = (v, c) \<Longrightarrow> (c = 0 \<and> v = ne_ukazana) \<or> c = 0.90"
  by (auto simp: date_from_words_def Let_def split: option.splits if_splits)

lemma date_from_short_conf:
  "date_from_short B now t = (v, c) \<Longrightarrow> (c = 0 \<and> v = ne_ukazana) \<or> c = 0.90 \<or> c = 0.85"
  by (auto simp: date_from_short_def Let_def split: option.splits if_splits
           dest: date_from_words_conf)

lemma date_from_full_conf:
  "date_from_full B now t = (v, c) \<Longrightarrow>
     (c = 0 \<and> v = ne_ukazana) \<or> c = 0.90 \<or> c = 0.85 \<or> c = 0.95"
  by (auto simp: date_from_full_def Let_def split: option.splits if_splits
           dest: date_from_short_conf)

lemma extract_date_conf:
  "extract_date B now t = (v, c) \<Longrightarrow>
     (c = 0 \<and> v = ne_ukazana) \<or> c = 0.90 \<or> c = 0.85 \<or> c = 0.95"
  by (auto simp: extract_date_def Let_def split: if_splits dest: date_from_full_conf)

lemma extract_time_conf:
  "extract_time B t = (v, c) \<Longrightarrow>
     (c = 0 \<and> v = ne_ukazano) \<or> c = 0.70 \<or> c = 0.90 \<or> c = 0.95"
  by (auto simp: extract_time_def Let_def split: option.splits if_splits prod.splits)

lemma extract_location_conf:
  "extract_location B R t = (v, c) \<Longrightarrow>
     (c = 0 \<and> v = ne_ukazano) \<or> c = 0.70 \<or> c = 0.85 \<or> c = 0.90 \<or> c = 0.95"
  by (auto simp: extract_location_def Let_def split: option.splits if_splits prod.splits)

lemma heuristic_confidence_bounds:
  "0 \<le> heuristic_confidence B R now t \<and> heuristic_confidence B R now t \<le> 0.95"
proof -
  obtain dv dc where d: "extract_date B now t = (dv, dc)" by (cases "extract_date B now t")
  obtain tv tc where t: "extract_time B t = (tv, tc)" by (cases "extract_time B t")
  obtain lv lc where l: "extract_location B R t = (lv, lc)" by (cases "extract_location B R t")
  from extract_date_conf[OF d] have "0 \<le> dc \<and> dc \<le> 0.95" by auto
  moreover from extract_time_conf[OF t] have "0 \<le> tc \<and> tc \<le> 0.95" by auto
  moreover from extract_location_conf[OF l] have "0 \<le> lc \<and> lc \<le> 0.95" by auto
  ultimately show ?thesis by (simp add: heuristic_confidence_def d t l)
qed

lemma heuristic_confidence_zero:
  assumes "heuristic_confidence B R now t = 0"
  shows "extract_date B now t = (ne_ukazana, 0) \<and> extract_time B t = (ne_ukazano, 0)
         \<and> extract_location B R t = (ne_ukazano, 0)"
proof -
  obtain dv dc where d: "extract_date B now t = (dv, dc)" by (cases "extract_date B now t")
  obtain tv tc where t: "extract_time B t = (tv, tc)" by (cases "extract_time B t")
  obtain lv lc where l: "extract_location B R t = (lv, lc)" by (cases "extract_location B R t")
  have sum: "dc + tc + lc = 0" using assms by (simp add: heuristic_confidence_def d t l)
  from extract_date_conf[OF d] have dd: "(dc = 0 \<and> dv = ne_ukazana) \<or> 0 < dc" by auto
  from extract_time_conf[OF t] have tt: "(tc = 0 \<and> tv = ne_ukazano) \<or> 0 < tc" by auto
  from extract_location_conf[OF l] have ll: "(lc = 0 \<and> lv = ne_ukazano) \<or> 0 < lc" by auto
  from dd tt ll sum
  have "dc = 0 \<and> dv = ne_ukazana \<and> tc = 0 \<and> tv = ne_ukazano \<and> lc = 0 \<and> lv = ne_ukazano"
    by auto
  then show ?thesis by (simp add: d t l)
qed

lemma refined_event_confidence:
  "refined_event t d data = Some ev \<Longrightarrow> ev_confidence ev = 0.85"
  by (auto simp: refined_event_def split: json.splits option.splits)

lemma refine_response_confidence:
  "refine_response J t d g = Some ev \<Longrightarrow> ev_confidence ev = 0.85"
  by (auto simp: refine_response_def split: generation.splits option.splits if_splits
           dest: refined_event_confidence)

lemma refine_with_llm_confidence:
  "refine_with_llm J env X t d = (Some ev, X') \<Longrightarrow> ev_confidence ev = 0.85"
  by (auto simp: refine_with_llm_def split: prod.splits option.splits
           dest: refine_response_confidence)

lemma extract_event_info_cases:
  "extract_event_info B R J env X t url = (Some ev, X') \<Longrightarrow>
     ev_confidence ev = 0.85 \<or> ev = heuristic_event B R (today env) t url"
  by (auto simp: extract_event_info_def split: if_splits prod.splits option.splits
           dest: refine_with_llm_confidence)

text \<open>
  C2. A record that \<open>extract_event_info\<close> produces is a refined one, with confidence 0.85,
  or the heuristic one; in both its confidence lies between 0 and 1. The confidence of the
  heuristic record is the mean of the three confidences, which clamping to the range from
  0 to 1 leaves as it is, and it is 0 only when each of the three extractors gave its
  "not given" answer with confidence 0. The confidences are real numbers here; the
  source's are floating-point numbers.
\<close>

theorem event_confidence_range:
  "(extract_event_info B R J env X t url = (Some ev, X') \<longrightarrow>
      0 \<le> ev_confidence ev \<and> ev_confidence ev \<le> 1 \<and>
      (ev_confidence ev = 0.85 \<or> ev = heuristic_event B R (today env) t url)) \<and>
   ev_confidence (heuristic_event B R now t url) =
     max 0 (min 1 ((snd (extract_date B now t) + snd (extract_time B t)
                      + snd (extract_location B R t)) / 3)) \<and>
   (ev_confidence (heuristic_event B R now t url) = 0 \<longrightarrow>
      extract_date B now t = (ne_ukazana, 0) \<and> extract_time B t = (ne_ukazano, 0) \<and>
      extract_location B R t = (ne_ukazano, 0))"
proof -
  have range: "0 \<le> heuristic_confidence B R d t \<and> heuristic_confidence B R d t \<le> 0.95" for d
    by (rule heuristic_confidence_bounds)
  have clamp: "ev_confidence (heuristic_event B R d t url) = heuristic_confidence B R d t" for d
    using range[of d] by (simp add: heuristic_event_def)
  have produced: "0 \<le> ev_confidence ev \<and> ev_confidence ev \<le> 1 \<and>
      (ev_confidence ev = 0.85 \<or> ev = heuristic_event B R (today env) t url)"
    if "extract_event_info B R J env X t url = (Some ev, X')"
    using extract_event_info_cases[OF that] clamp[of "today env"] range[of "today env"] by auto
  have mean: "ev_confidence (heuristic_event B R now t url) =
     max 0 (min 1 ((snd (extract_date B now t) + snd (extract_time B t)
                      + snd (extract_location B R t)) / 3))"
    using range[of now] clamp[of now] by (simp add: heuristic_confidence_def)
  have zero: "extract_date B now t = (ne_ukazana, 0) \<and> extract_time B t = (ne_ukazano, 0) \<and>
      extract_location B R t = (ne_ukazano, 0)"
    if "ev_confidence (heuristic_event B R now t url) = 0"
    using that clamp[of now] heuristic_confidence_zero[of B R now t] by simp
  from produced mean zero show ?thesis by blast
qed

lemma date_of_vstrecha_segodnya:
  "extract_date basic_builtins christmas_eve vstrecha_segodnya = (asc ''24.12.2024'', 0.95)"
  by (simp add: extract_date_def vstrecha_segodnya_def segodnya_def zavtra_def onlajn_def
      basic_simps strftime_dmy_def christmas_eve_def zfill_def str_of_int_def)

lemma time_of_vstrecha_segodnya:
  "extract_time basic_builtins vstrecha_segodnya = (asc ''18:30'', 0.90)"
  by (simp add: extract_time_def vstrecha_segodnya_def segodnya_def onlajn_def basic_simps
      rx_simps time_range_rx_def time_single_rx_def zfill_def is_space_def)

lemma location_of_vstrecha_segodnya:
  "extract_location basic_builtins R vstrecha_segodnya = (Onlajn, 0.90)"
  by (simp add: extract_location_def vstrecha_segodnya_def segodnya_def onlajn_def basic_simps
      online_platforms_def)

lemma vstrecha_segodnya_is_event: "is_event_text basic_builtins R vstrecha_segodnya"
  by (simp add: is_event_text_def event_score_def vstrecha_segodnya_def segodnya_def onlajn_def
      event_keywords_def basic_simps)

theorem event_confidence_range_witness:
  "\<forall>R J url.
     extract_event_info basic_builtins R J quiet_env (new_extractor False) vstrecha_segodnya url =
       (Some (heuristic_event basic_builtins R christmas_eve vstrecha_segodnya url),
        new_extractor False) \<and>
     ev_confidence (heuristic_event basic_builtins R christmas_eve vstrecha_segodnya url)
       = 11 / 12 \<and>
     0 \<le> ev_confidence (heuristic_event basic_builtins R christmas_eve vstrecha_segodnya url) \<and>
     ev_confidence (heuristic_event basic_builtins R christmas_eve vstrecha_segodnya url) \<le> 1"
proof (intro allI)
  fix R J url
  let ?ev = "heuristic_event basic_builtins R christmas_eve vstrecha_segodnya url"
  have produced:
    "extract_event_info basic_builtins R J quiet_env (new_extractor False) vstrecha_segodnya url =
       (Some ?ev, new_extractor False)"
    by (simp add: extract_event_info_def vstrecha_segodnya_is_event new_extractor_def
        quiet_env_def)
  have mean: "ev_confidence ?ev = 11 / 12"
    by (simp add: heuristic_event_def heuristic_confidence_def date_of_vstrecha_segodnya
        time_of_vstrecha_segodnya location_of_vstrecha_segodnya)
  have "0 \<le> ev_confidence ?ev \<and> ev_confidence ?ev \<le> 1"
    using event_confidence_range[of basic_builtins R J quiet_env "new_extractor False"
        vstrecha_segodnya url ?ev "new_extractor False" christmas_eve] produced
    by blast
  with produced mean
  show "extract_event_info basic_builtins R J quiet_env (new_extractor False) vstrecha_segodnya url =
       (Some ?ev, new_extractor False) \<and>
     ev_confidence ?ev = 11 / 12 \<and> 0 \<le> ev_confidence ?ev \<and> ev_confidence ?ev \<le> 1"
    by (intro conjI) simp_all
qed

section \<open>Properties of the refinement stage\<close>

lemma get_llm_failed: "llm_error X \<Longrightarrow> get_llm ok X = (None, X)"
  by (simp add: get_llm_def)

lemma refine_failed: "llm_error X \<Longrightarrow> refine_with_llm J env X t d = (None, X)"
  by (simp add: refine_with_llm_def get_llm_failed)

lemma refine_many_failed:
  "llm_error X \<Longrightarrow> refine_many J cs X = (replicate (length cs) None, X)"
  by (induction cs) (auto simp: refine_failed)

lemma extract_event_info_failed:
  "llm_error X \<Longrightarrow> snd (extract_event_info B R J env X t url) = X"
  by (simp add: extract_event_info_def refine_failed)

lemma extract_each_failed:
  "llm_error X \<Longrightarrow> snd (extract_each B R J envs i texts X) = X"
proof (induction texts arbitrary: i)
  case Nil
  then show ?case by simp
next
  case (Cons a texts)
  obtain t url where a: "a = (t, url)" by (cases a)
  have "snd (extract_event_info B R J (envs i) X t url) = X"
    using Cons.prems by (rule extract_event_info_failed)
  then show ?case using Cons a by (simp add: split_beta)
qed

lemma extract_events_failed:
  "llm_error X \<Longrightarrow> snd (extract_events B R J envs i texts m X) = X"
proof (induction texts arbitrary: i m)
  case Nil
  then show ?case by simp
next
  case (Cons a texts)
  obtain t url where a: "a = (t, url)" by (cases a)
  have "snd (extract_event_info B R J (envs i) X t url) = X"
    using Cons.prems by (rule extract_event_info_failed)
  then show ?case using Cons a by (simp add: split_beta)
qed

lemma process_batch_failed:
  "llm_error X \<Longrightarrow> snd (process_batch B R J ok envs X texts) = X"
  by (simp add: process_batch_def get_llm_failed extract_each_failed extract_events_failed
      split_beta)

lemma first_failure:
  "\<not> llm_error X \<Longrightarrow> \<not> llm_loaded X \<Longrightarrow> \<not> load_ok env \<Longrightarrow>
   refine_with_llm J env X t d =
     (None, X\<lparr>llm := Some Handler, llm_error := True, use_llm := False,
              load_calls := load_calls X + 1\<rparr>)"
  by (simp add: refine_with_llm_def get_llm_def)

text \<open>
  C1. When the first load of the model raises (the extractor has neither loaded the model
  nor failed before, and \<open>load_model\<close> raises now), the refinement call returns \<open>None\<close>
  after that one load and the extractor is in its failed state. From then on every
  refinement call, whatever it would meet, returns \<open>None\<close> and leaves the extractor as it
  is: no further load is counted and the failed state stays. The same holds for the other
  two users of the model, \<open>extract_event_info\<close> and \<open>process_batch\<close>.
\<close>

theorem failed_load_is_terminal:
  "\<not> llm_error X \<Longrightarrow> \<not> llm_loaded X \<Longrightarrow> \<not> load_ok env \<Longrightarrow>
   refine_with_llm J env X t d = (r, X1) \<Longrightarrow>
     r = None \<and> llm_error X1 \<and> load_calls X1 = load_calls X + 1 \<and>
     refine_many J cs X1 = (replicate (length cs) None, X1) \<and>
     snd (extract_event_info B R J env' X1 t' url) = X1 \<and>
     snd (process_batch B R J ok envs X1 texts) = X1"
proof -
  assume fresh: "\<not> llm_error X" "\<not> llm_loaded X" "\<not> load_ok env"
    and call: "refine_with_llm J env X t d = (r, X1)"
  from first_failure[OF fresh, of J t d] call
  have r: "r = None"
    and X1: "X1 = X\<lparr>llm := Some Handler, llm_error := True, use_llm := False,
                     load_calls := load_calls X + 1\<rparr>"
    by simp_all
  from X1 have failed: "llm_error X1" and count: "load_calls X1 = load_calls X + 1"
    by simp_all
  from r failed count refine_many_failed[OF failed] extract_event_info_failed[OF failed]
    process_batch_failed[OF failed]
  show ?thesis by simp
qed

theorem failed_load_is_terminal_witness:
  "\<not> llm_error (new_extractor True) \<and> \<not> llm_loaded (new_extractor True) \<and>
   \<not> load_ok quiet_env \<and>
   (\<forall>J t d. \<exists>X1.
      refine_with_llm J quiet_env (new_extractor True) t d = (None, X1) \<and>
      llm_error X1 \<and> load_calls X1 = 1 \<and>
      refine_many J (replicate 100 (helpful_env, t, d)) X1 = (replicate 100 None, X1))"
proof -
  have fresh: "\<not> llm_error (new_extractor True)" "\<not> llm_loaded (new_extractor True)"
    "\<not> load_ok quiet_env"
    by (simp_all add: new_extractor_def quiet_env_def)
  have "\<exists>X1.
      refine_with_llm J quiet_env (new_extractor True) t d = (None, X1) \<and>
      llm_error X1 \<and> load_calls X1 = 1 \<and>
      refine_many J (replicate 100 (helpful_env, t, d)) X1 = (replicate 100 None, X1)"
    for J t d
  proof -
    obtain r X1 where call: "refine_with_llm J quiet_env (new_extractor True) t d = (r, X1)"
      by (cases "refine_with_llm J quiet_env (new_extractor True) t d")
    from failed_load_is_terminal[OF fresh call, where cs = "replicate 100 (helpful_env, t, d)"]
    have "r = None" "llm_error X1" "load_calls X1 = load_calls (new_extractor True) + 1"
      "refine_many J (replicate 100 (helpful_env, t, d)) X1 = (replicate 100 None, X1)"
      by simp_all
    with call show ?thesis by (simp add: new_extractor_def)
  qed
  with fresh show ?thesis by blast
qed

section \<open>Properties of the message pager\<close>

lemma parse_div_dropped:
  "too_short B d \<or> \<not> complete d \<Longrightarrow> parse_div B L cutoff ch d = None"
  by (auto simp: parse_div_def too_short_def complete_def Let_def split: option.splits)

lemma parse_div_kept_length:
  "parse_div B L cutoff ch d = Some m \<Longrightarrow> 10 \<le> length (msg_text m)"
  by (auto simp: parse_div_def Let_def split: option.splits if_splits)

lemma parse_divs_filter:
  "parse_divs B L cutoff ch divs seen =
   parse_divs B L cutoff ch (filter (\<lambda>d. \<not> too_short B d \<and> complete d) divs) seen"
proof (induction divs arbitrary: seen)
  case Nil
  then show ?case by simp
next
  case (Cons d divs)
  show ?case
  proof (cases "too_short B d \<or> \<not> complete d")
    case True
    then have "parse_div B L cutoff ch d = None" by (rule parse_div_dropped)
    then show ?thesis using True Cons by auto
  next
    case False
    then show ?thesis using Cons by (auto split: option.splits)
  qed
qed

lemma parse_divs_result:
  "parse_divs B L cutoff ch divs seen = (ms, seen') \<Longrightarrow>
     (\<forall>m \<in> set ms. 10 \<le> length (msg_text m)) \<and> seen' = seen \<union> message_hash ` set ms"
proof (induction divs arbitrary: seen ms seen')
  case Nil
  then show ?case by simp
next
  case (Cons d divs)
  show ?case
  proof (cases "parse_div B L cutoff ch d")
    case None
    then show ?thesis using Cons by simp
  next
    case (Some m)
    show ?thesis
    proof (cases "message_hash m \<in> seen")
      case True
      then show ?thesis using Cons Some by simp
    next
      case False
      obtain ms0 seen0 where later:
        "parse_divs B L cutoff ch divs (insert (message_hash m) seen) = (ms0, seen0)"
        by (cases "parse_divs B L cutoff ch divs (insert (message_hash m) seen)")
      from Cons.IH[OF later] have ih:
        "(\<forall>m \<in> set ms0. 10 \<le> length (msg_text m))"
        "seen0 = insert (message_hash m) seen \<union> message_hash ` set ms0" by simp_all
      from Cons.prems Some False later have "ms = m # ms0" "seen' = seen0" by simp_all
      then show ?thesis using ih parse_div_kept_length[OF Some] by auto
    qed
  qed
qed

lemma parse_channel_result:
  "parse_channel B L cfg net now db ch seen = (Returned ms, seen') \<Longrightarrow>
     (\<forall>m \<in> set ms. 10 \<le> length (msg_text m)) \<and> seen' = seen \<union> message_hash ` set ms"
  by (auto simp: parse_channel_def Let_def
           split: fetch_result.splits if_splits option.splits prod.splits
           dest!: parse_divs_result)

lemma extract_each_length: "length (fst (extract_each B R J envs i texts X)) = length texts"
  by (induction texts arbitrary: i X) (auto simp: split_beta)

lemma process_batch_length: "length (fst (process_batch B R J ok envs X texts)) = length texts"
  by (simp add: process_batch_def extract_each_length split_beta)

lemma collect_events_count:
  "length (fst (collect_events ps)) + snd (collect_events ps) = length ps"
  by (induction ps rule: collect_events.induct) (auto simp: split_beta)

lemma process_channel_messages_totals:
  "process_channel_messages B R J ok envs save X ms = (Returned (stats, evs), X') \<Longrightarrow>
     total stats = length ms \<and> events stats + skipped stats = length ms"
proof -
  assume a: "process_channel_messages B R J ok envs save X ms = (Returned (stats, evs), X')"
  show ?thesis
  proof (cases "ms = []")
    case True
    then show ?thesis using a by (auto simp: process_channel_messages_def)
  next
    case False
    let ?sorted = "sort_key msg_datetime ms"
    let ?batch = "fst (process_batch B R J ok envs X
                         (map (\<lambda>msg. (msg_text msg, msg_url msg)) ?sorted))"
    have len: "length (zip ?sorted ?batch) = length ms"
      by (simp add: process_batch_length)
    from a False have "total stats = length ms"
      and "events stats = length (fst (collect_events (zip ?sorted ?batch)))"
      and "skipped stats = snd (collect_events (zip ?sorted ?batch))"
      by (auto simp: process_channel_messages_def Let_def split_beta split: if_splits)
    then show ?thesis using collect_events_count[of "zip ?sorted ?batch"] len by simp
  qed
qed

lemma fetch_up:
  "fetch_page config_defaults (network up_env) = (Page (asc ''<html></html>''), [Get 0])"
  by (simp add: up_env_def fetch_page_def config_defaults_def fetch_from.simps)

lemma fetch_down:
  "fetch_page config_defaults (network down_env) =
     (NoPage, [Get 0, Sleep 2, Get 1, Sleep 4, Get 2])"
  by (simp add: down_env_def fetch_all_fail_defaults)

lemma plain_page_lib_simps:
  "find_message_divs (plain_page_lib ds) html = Some ds"
  "fromisoformat (plain_page_lib ds) stamp = Some 0"
  "isoformat (plain_page_lib ds) i = asc ''1970-01-01T03:00:00+03:00''"
  "md5_hexdigest (plain_page_lib ds) content = Some content"
  by (simp_all add: plain_page_lib_def)

lemma clean_short_post: "clean_text basic_builtins (asc '' Hi all '') = asc ''Hi all''"
  by (simp add: clean_text_def basic_simps strip_def is_space_def skip_markers_def)

lemma clean_long_post:
  "clean_text basic_builtins (asc ''Open lecture in room 5'') = asc ''Open lecture in room 5''"
  by (simp add: clean_text_def basic_simps strip_def is_space_def skip_markers_def)

lemma short_post_is_short: "too_short basic_builtins short_post \<and> complete short_post"
  by (simp add: too_short_def complete_def short_post_def clean_short_post) (simp add: asc_def)

lemma parse_long_post:
  "parse_div basic_builtins (plain_page_lib ds) (- 1728000000000) (asc ''chan'') long_post =
     Some \<lparr>msg_id = asc ''2'', msg_text = asc ''Open lecture in room 5'', msg_datetime = 0,
        msg_url = asc ''https://t.me/chan/2'', msg_channel = asc ''chan'',
        message_hash = asc ''Open lecture in room 5|1970-01-01T03:00:00+03:00|chan''\<rparr>"
  by (simp add: parse_div_def long_post_def plain_page_lib_simps clean_long_post
      generate_message_hash_def Let_def)
     (simp add: asc_def)

text \<open>
  C10. A block whose cleaned text is empty or shorter than 10 characters, or that lacks its
  timestamp, its text block or its permalink, gives no message; leaving such blocks out of
  the page changes neither the messages parsed nor the set of hashes seen. Every message of
  a parsed channel has a text of at least 10 characters, and the hashes added to the set are
  those of the messages returned. The channel's total is the number of those messages, each
  counted once as an event or as skipped.
\<close>

theorem short_posts_are_dropped:
  "(too_short B d \<or> \<not> complete d \<longrightarrow> parse_div B L cutoff ch d = None) \<and>
   parse_divs B L cutoff ch divs seen =
     parse_divs B L cutoff ch (filter (\<lambda>d. \<not> too_short B d \<and> complete d) divs) seen \<and>
   (parse_channel B L cfg net now db ch seen = (Returned ms, seen') \<longrightarrow>
      (\<forall>m \<in> set ms. 10 \<le> length (msg_text m)) \<and> seen' = seen \<union> message_hash ` set ms) \<and>
   (process_channel_messages B R J ok envs save X ms = (Returned (stats, evs), X') \<longrightarrow>
      total stats = length ms \<and> events stats + skipped stats = length ms)"
  using parse_div_dropped[of B d L cutoff ch] parse_divs_filter[of B L cutoff ch divs seen]
    parse_channel_result[of B L cfg net now db ch seen ms seen']
    process_channel_messages_totals[of B R J ok envs save X ms stats evs X']
  by blast

theorem short_posts_are_dropped_witness:
  "too_short basic_builtins short_post \<and> complete short_post \<and>
   parse_div basic_builtins (plain_page_lib [short_post, long_post]) (- 1728000000000)
     (asc ''chan'') short_post = None \<and>
   parse_channel basic_builtins (plain_page_lib [short_post, long_post]) config_defaults
       (network up_env) 0 20 (asc ''chan'') {} =
     (Returned [\<lparr>msg_id = asc ''2'', msg_text = asc ''Open lecture in room 5'', msg_datetime = 0,
        msg_url = asc ''https://t.me/chan/2'', msg_channel = asc ''chan'',
        message_hash = asc ''Open lecture in room 5|1970-01-01T03:00:00+03:00|chan''\<rparr>],
      {asc ''Open lecture in room 5|1970-01-01T03:00:00+03:00|chan''})"
proof -
  let ?L = "plain_page_lib [short_post, long_post]"
  have dropped: "parse_div basic_builtins ?L (- 1728000000000) (asc ''chan'') short_post = None"
    using short_posts_are_dropped[of basic_builtins short_post ?L "- 1728000000000" "asc ''chan''"]
      short_post_is_short by blast
  have page: "asc ''<html></html>'' \<noteq> []" by (simp add: asc_def)
  have "parse_channel basic_builtins ?L config_defaults (network up_env) 0 20 (asc ''chan'') {} =
     (Returned [\<lparr>msg_id = asc ''2'', msg_text = asc ''Open lecture in room 5'', msg_datetime = 0,
        msg_url = asc ''https://t.me/chan/2'', msg_channel = asc ''chan'',
        message_hash = asc ''Open lecture in room 5|1970-01-01T03:00:00+03:00|chan''\<rparr>],
      {asc ''Open lecture in room 5|1970-01-01T03:00:00+03:00|chan''})"
    by (simp add: parse_channel_def fetch_up plain_page_lib_simps page day_us_def dropped
        parse_long_post)
  with short_post_is_short dropped show ?thesis by blast
qed

section \<open>Properties of the fleet statistics\<close>

lemma count_failed:
  "failed (count_results results S) = failed S + length (filter is_failure results)"
  by (induction results S rule: count_results.induct) auto

lemma count_processed:
  "processed (count_results results S) =
     processed S + length (filter (\<lambda>r. \<not> is_failure r) results)"
  by (induction results S rule: count_results.induct) auto

lemma count_dom:
  "dom (channels_stats (count_results results S)) =
     dom (channels_stats S) \<union> {c. \<exists>s. TaskReturned c (Some s) \<in> set results}"
  by (induction results S rule: count_results.induct) (auto split: if_splits)

lemma no_page_no_stats:
  "fst (fetch_page (fetching cfg) (network env)) = NoPage
     \<or> fst (fetch_page (fetching cfg) (network env)) = FetchRaised \<Longrightarrow>
   fst (parse_and_process_channel B R J L cfg env ch st) = (ch, None)"
  by (auto simp: parse_and_process_channel_def parse_channel_def split: fetch_result.splits)

lemma no_messages_no_stats:
  "fst (parse_channel B L (fetching cfg) (network env) (clock env) (days_back cfg) ch (fst st))
     = Returned [] \<Longrightarrow>
   fst (parse_and_process_channel B R J L cfg env ch st) = (ch, None)"
  by (auto simp: parse_and_process_channel_def split: prod.splits py.splits)

lemma down_channel:
  "parse_and_process_channel basic_builtins no_patterns no_json (plain_page_lib [])
      default_parser_config down_env (asc ''a'') ({}, new_extractor True) =
     ((asc ''a'', None), ({}, new_extractor True))"
  by (simp add: parse_and_process_channel_def parse_channel_def default_parser_config_def
      fetch_down)

lemma empty_channel_parse:
  "parse_channel basic_builtins (plain_page_lib []) config_defaults (network up_env) 0 20
      (asc ''b'') {} = (Returned [], {})"
proof -
  have page: "asc ''<html></html>'' \<noteq> []" by (simp add: asc_def)
  show ?thesis by (simp add: parse_channel_def fetch_up plain_page_lib_simps page)
qed

lemma empty_channel:
  "parse_and_process_channel basic_builtins no_patterns no_json (plain_page_lib [])
      default_parser_config up_env (asc ''b'') ({}, new_extractor True) =
     ((asc ''b'', None), ({}, new_extractor True))"
proof -
  have "clock up_env = 0" by (simp add: up_env_def)
  then show ?thesis
    by (simp add: parse_and_process_channel_def default_parser_config_def empty_channel_parse)
qed

lemma two_channel_run:
  "fst (parse_and_process basic_builtins no_patterns no_json (plain_page_lib [])
      default_parser_config [(asc ''a'', down_env), (asc ''b'', up_env)]
      ({}, new_extractor True)) =
    \<lparr>total_channels = 2, processed = 0, failed = 2, total_messages = 0, total_events = 0,
      channels_stats = Map.empty\<rparr>"
  by (simp add: parse_and_process_def down_channel empty_channel initial_statistics_def)

text \<open>
  C8, as the code has it. A channel whose fetch gives no page (the retries are used up, or
  an exception leaves the fetcher) and a channel whose page is fetched but gives no message
  both end as the pair of the channel and \<open>None\<close>. The counting loop puts every such pair,
  like every exception, under \<open>failed\<close>, counts the others under \<open>processed\<close>, and enters
  only the others in \<open>channels_stats\<close>.
\<close>

theorem unreachable_and_empty_channels_fail_alike:
  "(fst (fetch_page (fetching cfg) (network env)) = NoPage
      \<or> fst (fetch_page (fetching cfg) (network env)) = FetchRaised \<longrightarrow>
      fst (parse_and_process_channel B R J L cfg env ch st) = (ch, None)) \<and>
   (fst (parse_channel B L (fetching cfg) (network env) (clock env) (days_back cfg) ch (fst st))
      = Returned [] \<longrightarrow>
      fst (parse_and_process_channel B R J L cfg env ch st) = (ch, None)) \<and>
   is_failure (TaskReturned ch None) \<and>
   failed (count_results results S) = failed S + length (filter is_failure results) \<and>
   processed (count_results results S) =
     processed S + length (filter (\<lambda>r. \<not> is_failure r) results) \<and>
   dom (channels_stats (count_results results S)) =
     dom (channels_stats S) \<union> {c. \<exists>s. TaskReturned c (Some s) \<in> set results}"
  using no_page_no_stats[of cfg env B R J L ch st] no_messages_no_stats[of B L cfg env ch st R J]
    count_failed[of results S] count_processed[of results S] count_dom[of results S]
  by simp

theorem unreachable_and_empty_channels_fail_alike_witness:
  "fst (fetch_page (fetching default_parser_config) (network down_env)) = NoPage \<and>
   fst (parse_and_process_channel basic_builtins no_patterns no_json (plain_page_lib [])
          default_parser_config down_env (asc ''a'') ({}, new_extractor True))
     = (asc ''a'', None) \<and>
   failed (count_results [TaskReturned (asc ''a'') None, TaskReturned (asc ''b'') None]
             (initial_statistics 2)) = 2"
proof -
  have down: "fst (fetch_page (fetching default_parser_config) (network down_env)) = NoPage"
    by (simp add: default_parser_config_def fetch_down)
  from unreachable_and_empty_channels_fail_alike[of default_parser_config down_env
      basic_builtins no_patterns no_json "plain_page_lib []" "asc ''a''" "({}, new_extractor True)"
      "[TaskReturned (asc ''a'') None, TaskReturned (asc ''b'') None]" "initial_statistics 2"]
    down
  show ?thesis by (simp add: initial_statistics_def)
qed

text \<open>
  C8 as the spec words it fails: of a channel that cannot be reached and a channel whose page
  is served with no message in it, both are counted under \<open>failed\<close>, and nothing in the
  statistics tells them apart.
\<close>

theorem same_bucket_counterexample:
  "fst (fetch_page config_defaults (network down_env)) = NoPage \<and>
   fst (fetch_page config_defaults (network up_env)) = Page (asc ''<html></html>'') \<and>
   parse_channel basic_builtins (plain_page_lib []) config_defaults (network up_env) 0 20
      (asc ''b'') {} = (Returned [], {}) \<and>
   fst (parse_and_process_channel basic_builtins no_patterns no_json (plain_page_lib [])
          default_parser_config down_env (asc ''a'') ({}, new_extractor True))
     = (asc ''a'', None) \<and>
   fst (parse_and_process_channel basic_builtins no_patterns no_json (plain_page_lib [])
          default_parser_config up_env (asc ''b'') ({}, new_extractor True))
     = (asc ''b'', None) \<and>
   fst (parse_and_process basic_builtins no_patterns no_json (plain_page_lib [])
      default_parser_config [(asc ''a'', down_env), (asc ''b'', up_env)]
      ({}, new_extractor True)) =
    \<lparr>total_channels = 2, processed = 0, failed = 2, total_messages = 0, total_events = 0,
      channels_stats = Map.empty\<rparr>"
  by (simp add: fetch_down fetch_up empty_channel_parse down_channel empty_channel
      two_channel_run)

section \<open>Properties of the JSON extraction\<close>































lemma no_llm_falls_back:
  "is_event_text B R t \<Longrightarrow> \<not> use_llm X \<Longrightarrow>
   fst (extract_event_info B R J env X t url) = Some (heuristic_event B R (today env) t url)"
  by (simp add: extract_event_info_def)







end
